theory Spec2Isabelle
  imports Main "HOL-Library.Sublist"
begin

section \<open>The per-project language service container of service.ts\<close>

text \<open>
  \<^verbatim>\<open>createLanguageService\<close> of service.ts builds a closure over three mutable things:
  the \<^verbatim>\<open>snapshotManager\<close>, the module loader's resolution cache and the variable
  \<^verbatim>\<open>languageService\<close>. The functions it returns (\<^verbatim>\<open>updateSnapshot\<close>,
  \<^verbatim>\<open>deleteSnapshot\<close>, \<^verbatim>\<open>hasFile\<close>, ...) and the host callbacks it hands to the
  engine read and write them. Here the closure is a record that every function takes and
  returns updated. The collaborators whose code lives in other files
  (\<^verbatim>\<open>DocumentSnapshot\<close>, \<^verbatim>\<open>SnapshotManager\<close>, the module loader, \<^verbatim>\<open>utils\<close>,
  the TypeScript library) are either parameters or modelled from the specification, as
  said at each definition. Every call that service.ts makes to a collaborator which does
  more than read is also written to a log, in the order of the source's statements.
\<close>

subsection \<open>Snapshots and documents\<close>

text \<open>\<^verbatim>\<open>ts.ScriptKind\<close>.\<close>

datatype ScriptKind = Unknown | JS | JSX | TS | TSX | External | JSON | Deferred

text \<open>
  A \<^verbatim>\<open>DocumentSnapshot\<close>: service.ts reads its \<^verbatim>\<open>version\<close> and \<^verbatim>\<open>scriptKind\<close>;
  the path and the text are the other two fields the specification's data model names.
\<close>

record DocumentSnapshot =
  filePath :: string
  version :: int
  scriptKind :: ScriptKind
  getText :: string

text \<open>
  A \<^verbatim>\<open>Document\<close> of the editor: \<^verbatim>\<open>getFilePath()\<close> is a string or null, and
  \<^verbatim>\<open>version\<close> a number.
\<close>

record Document =
  getFilePath :: "string option"
  docVersion :: int
  docText :: string

text \<open>The argument of \<^verbatim>\<open>updateSnapshot\<close>: \<^verbatim>\<open>Document | string\<close>.\<close>

datatype DocumentOrFilePath = IsDocument Document | IsString string

text \<open>One \<^verbatim>\<open>TextDocumentContentChangeEvent\<close>: an optional range (start, end) and a text.\<close>

record TextDocumentContentChangeEvent =
  changeRange :: "(nat \<times> nat) option"
  changeText :: string

subsection \<open>The snapshot manager\<close>

record SnapshotManager =
  documents :: "string \<rightharpoonup> DocumentSnapshot"
  projectFiles :: "string list"

text \<open>
  Modelled from the spec: \<^verbatim>\<open>SnapshotManager.get\<close>, of SnapshotManager.ts, which is not
  among the sources. The specification: \<^verbatim>\<open>get(path) -> Snapshot | absent\<close>.
\<close>

definition SnapshotManager_get :: "string \<Rightarrow> SnapshotManager \<Rightarrow> DocumentSnapshot option" where
  "SnapshotManager_get fileName m = documents m fileName"

text \<open>
  Modelled from the spec: \<^verbatim>\<open>SnapshotManager.set\<close>, of SnapshotManager.ts.
  The specification: \<^verbatim>\<open>set(path, snapshot)\<close>: unconditional overwrite.
\<close>

definition SnapshotManager_set :: "string \<Rightarrow> DocumentSnapshot \<Rightarrow> SnapshotManager \<Rightarrow> SnapshotManager" where
  "SnapshotManager_set fileName snapshot m = m\<lparr>documents := (documents m)(fileName \<mapsto> snapshot)\<rparr>"

text \<open>
  Modelled from the spec: \<^verbatim>\<open>SnapshotManager.has\<close>, of SnapshotManager.ts.
  The specification: the Snapshot Cache holds the snapshots and the project's declared
  file names, and \<^verbatim>\<open>hasFile(path)\<close> is a membership test of it that does not probe
  the disk; service.ts documents \<^verbatim>\<open>hasFile\<close>, which returns \<^verbatim>\<open>has\<close>, as "Checks
  if a file is present in the project". A path is present when it is a declared project
  file or has a snapshot.
\<close>

definition SnapshotManager_has :: "string \<Rightarrow> SnapshotManager \<Rightarrow> bool" where
  "SnapshotManager_has fileName m =
     (fileName \<in> set (projectFiles m) \<or> documents m fileName \<noteq> None)"

text \<open>
  Modelled from the spec: \<^verbatim>\<open>SnapshotManager.delete\<close>, of SnapshotManager.ts.
  The specification: \<^verbatim>\<open>delete(path)\<close> removes the entry, and \<^verbatim>\<open>hasFile(p)\<close> is
  false after \<^verbatim>\<open>deleteSnapshot(p)\<close>: the path leaves the snapshots and the declared
  file names.
\<close>

definition SnapshotManager_delete :: "string \<Rightarrow> SnapshotManager \<Rightarrow> SnapshotManager" where
  "SnapshotManager_delete fileName m =
     m\<lparr>projectFiles := filter (\<lambda>s. s \<noteq> fileName) (projectFiles m),
       documents := (documents m)(fileName := None)\<rparr>"

subsection \<open>The module loader's resolution cache\<close>

text \<open>
  Modelled from the spec: the resolution cache of module-loader.ts, which is not among
  the sources. The specification: a map from (fromFile, moduleSpecifier) to
  ResolvedModuleOrFailure. An entry \<open>Some (Some f)\<close> is a resolution to the file \<open>f\<close>,
  an entry \<open>Some None\<close> is recorded as unresolved, \<open>None\<close> is no entry.
\<close>

type_synonym ResolutionCache = "(string \<times> string) \<rightharpoonup> string option"

text \<open>
  Modelled from the spec: \<^verbatim>\<open>deleteFromModuleCache\<close>, of module-loader.ts. The
  specification: deleting a snapshot removes the resolution-cache entries associated with
  the path; here, the entries that resolved to it.
\<close>

definition deleteFromModuleCache :: "string \<Rightarrow> ResolutionCache \<Rightarrow> ResolutionCache" where
  "deleteFromModuleCache path cache = (\<lambda>k. if cache k = Some (Some path) then None else cache k)"

text \<open>
  Modelled from the spec: \<^verbatim>\<open>deleteUnresolvedResolutionsFromCache\<close>, of module-loader.ts.
  The specification: an entry recorded as unresolved must be purged whenever a file that
  could satisfy it is created; the entries to purge are those that failed because that
  file did not yet exist. The file satisfies the entry (fromFile, moduleSpecifier) when
  the engine's own resolution of it against the disk, \<open>resolveOnDisk\<close>, now gives that
  file.
\<close>

definition deleteUnresolvedResolutionsFromCache ::
  "(string \<times> string \<Rightarrow> string option) \<Rightarrow> string \<Rightarrow> ResolutionCache \<Rightarrow> ResolutionCache" where
  "deleteUnresolvedResolutionsFromCache resolveOnDisk path cache =
     (\<lambda>k. if cache k = Some None \<and> resolveOnDisk k = Some path then None else cache k)"


subsection \<open>The closure of createLanguageService\<close>

text \<open>
  The calls service.ts makes to its collaborators, reads of the snapshot manager apart.
  Engine instances are numbered in the order \<^verbatim>\<open>ts.createLanguageService\<close> returns them.
\<close>

datatype call =
    CallDeleteFromModuleCache string
  | CallDeleteUnresolvedResolutionsFromCache string
  | CallFromDocument Document
  | CallFromFilePath string
  | CallSnapshotSet string
  | CallSnapshotDelete string
  | CallSnapshotUpdateTsOrJsFile string
  | CallDispose nat
  | CallCreateLanguageService nat

record Container =
  snapshotManager :: SnapshotManager
  moduleCache :: ResolutionCache
  languageService :: nat
  calls :: "call list"

text \<open>
  The collaborators taken as parameters: \<^verbatim>\<open>DocumentSnapshot.fromDocument\<close> and
  \<^verbatim>\<open>DocumentSnapshot.fromFilePath\<close> (with \<^verbatim>\<open>docContext.createDocument\<close> and
  \<^verbatim>\<open>transformationConfig\<close>, fixed when the container is built, and the disk as it is
  when they are called), \<^verbatim>\<open>ensureRealSvelteFilePath\<close> of utils,
  \<^verbatim>\<open>SnapshotManager.updateTsOrJsFile\<close>, and for the resolution cache the engine's
  resolution of (fromFile, moduleSpecifier) against the files that exist on disk.
\<close>

record Deps =
  fromDocument :: "Document \<Rightarrow> DocumentSnapshot"
  fromFilePath :: "string \<Rightarrow> DocumentSnapshot"
  ensureRealSvelteFilePath :: "string \<Rightarrow> string"
  SnapshotManager_updateTsOrJsFile ::
    "string \<Rightarrow> TextDocumentContentChangeEvent list option \<Rightarrow> SnapshotManager \<Rightarrow> SnapshotManager"
  resolveOnDisk :: "string \<times> string \<Rightarrow> string option"

definition logged :: "call \<Rightarrow> Container \<Rightarrow> Container" where
  "logged e c = c\<lparr>calls := calls c @ [e]\<rparr>"

text \<open>\<^verbatim>\<open>svelteModuleLoader.deleteFromModuleCache(filePath)\<close>\<close>

definition svelteModuleLoader_deleteFromModuleCache :: "string \<Rightarrow> Container \<Rightarrow> Container" where
  "svelteModuleLoader_deleteFromModuleCache path c =
     logged (CallDeleteFromModuleCache path)
       (c\<lparr>moduleCache := deleteFromModuleCache path (moduleCache c)\<rparr>)"

text \<open>\<^verbatim>\<open>svelteModuleLoader.deleteUnresolvedResolutionsFromCache(filePath)\<close>\<close>

definition svelteModuleLoader_deleteUnresolvedResolutionsFromCache ::
  "Deps \<Rightarrow> string \<Rightarrow> Container \<Rightarrow> Container" where
  "svelteModuleLoader_deleteUnresolvedResolutionsFromCache d path c =
     logged (CallDeleteUnresolvedResolutionsFromCache path)
       (c\<lparr>moduleCache := deleteUnresolvedResolutionsFromCache (resolveOnDisk d) path (moduleCache c)\<rparr>)"

text \<open>\<^verbatim>\<open>snapshotManager.set(filePath, snapshot)\<close>\<close>

definition snapshotManager_set :: "string \<Rightarrow> DocumentSnapshot \<Rightarrow> Container \<Rightarrow> Container" where
  "snapshotManager_set path snapshot c =
     logged (CallSnapshotSet path)
       (c\<lparr>snapshotManager := SnapshotManager_set path snapshot (snapshotManager c)\<rparr>)"

text \<open>\<^verbatim>\<open>snapshotManager.delete(filePath)\<close>\<close>

definition snapshotManager_delete :: "string \<Rightarrow> Container \<Rightarrow> Container" where
  "snapshotManager_delete path c =
     logged (CallSnapshotDelete path)
       (c\<lparr>snapshotManager := SnapshotManager_delete path (snapshotManager c)\<rparr>)"

text \<open>\<^verbatim>\<open>snapshotManager.updateTsOrJsFile(fileName, changes)\<close>\<close>

definition snapshotManager_updateTsOrJsFile ::
  "Deps \<Rightarrow> string \<Rightarrow> TextDocumentContentChangeEvent list option \<Rightarrow> Container \<Rightarrow> Container" where
  "snapshotManager_updateTsOrJsFile d fileName changes c =
     logged (CallSnapshotUpdateTsOrJsFile fileName)
       (c\<lparr>snapshotManager := SnapshotManager_updateTsOrJsFile d fileName changes (snapshotManager c)\<rparr>)"

text \<open>
  \<^verbatim>\<open>languageService.dispose(); languageService = ts.createLanguageService(host);\<close>
  The engine the container holds is the \<open>n\<close>-th it has created; the next one that
  \<^verbatim>\<open>ts.createLanguageService\<close> returns is a new object, the \<open>n + 1\<close>-th.
\<close>

definition restartLanguageService :: "Container \<Rightarrow> Container" where
  "restartLanguageService c =
     (let c1 = logged (CallDispose (languageService c)) c;
          fresh = Suc (languageService c1)
      in logged (CallCreateLanguageService fresh) (c1\<lparr>languageService := fresh\<rparr>))"

text \<open>The container's \<^verbatim>\<open>getService: () => languageService\<close>\<close>

definition Container_getService :: "Container \<Rightarrow> nat" where
  "Container_getService c = languageService c"

text \<open>\<^verbatim>\<open>function deleteSnapshot(filePath: string): void\<close>\<close>

definition deleteSnapshot :: "string \<Rightarrow> Container \<Rightarrow> Container" where
  "deleteSnapshot path c =
     snapshotManager_delete path (svelteModuleLoader_deleteFromModuleCache path c)"

text \<open>
  \<^verbatim>\<open>function updateSnapshotFromDocument(document: Document): DocumentSnapshot\<close>
  The test \<^verbatim>\<open>prevSnapshot?.version === document.version\<close> compares the version of the
  cached snapshot, undefined when there is none, with the document's number.
\<close>

definition updateSnapshotFromDocument ::
  "Deps \<Rightarrow> Document \<Rightarrow> Container \<Rightarrow> DocumentSnapshot \<times> Container" where
  "updateSnapshotFromDocument d document c =
     (let path = (case getFilePath document of None \<Rightarrow> '''' | Some p \<Rightarrow> p);
          prevSnapshot = SnapshotManager_get path (snapshotManager c)
      in case (prevSnapshot, map_option version prevSnapshot = Some (docVersion document)) of
           (Some prev, True) \<Rightarrow> (prev, c)
         | _ \<Rightarrow>
             (let c1 = (if prevSnapshot = None
                        then svelteModuleLoader_deleteUnresolvedResolutionsFromCache d path c
                        else c);
                  newSnapshot = fromDocument d document;
                  c2 = logged (CallFromDocument document) c1;
                  c3 = snapshotManager_set path newSnapshot c2;
                  c4 = (if (case prevSnapshot of
                              Some prev \<Rightarrow> scriptKind prev \<noteq> scriptKind newSnapshot
                            | None \<Rightarrow> False)
                        then restartLanguageService c3 else c3)
              in (newSnapshot, c4)))"

text \<open>\<^verbatim>\<open>function updateSnapshotFromFilePath(filePath: string): DocumentSnapshot\<close>\<close>

definition updateSnapshotFromFilePath ::
  "Deps \<Rightarrow> string \<Rightarrow> Container \<Rightarrow> DocumentSnapshot \<times> Container" where
  "updateSnapshotFromFilePath d path c =
     (case SnapshotManager_get path (snapshotManager c) of
        Some prevSnapshot \<Rightarrow> (prevSnapshot, c)
      | None \<Rightarrow>
          (let c1 = svelteModuleLoader_deleteUnresolvedResolutionsFromCache d path c;
               newSnapshot = fromFilePath d path;
               c2 = logged (CallFromFilePath path) c1;
               c3 = snapshotManager_set path newSnapshot c2
           in (newSnapshot, c3)))"

text \<open>\<^verbatim>\<open>function updateSnapshot(documentOrFilePath: Document | string): DocumentSnapshot\<close>\<close>

definition updateSnapshot ::
  "Deps \<Rightarrow> DocumentOrFilePath \<Rightarrow> Container \<Rightarrow> DocumentSnapshot \<times> Container" where
  "updateSnapshot d documentOrFilePath c =
     (case documentOrFilePath of
        IsString path \<Rightarrow> updateSnapshotFromFilePath d path c
      | IsDocument document \<Rightarrow> updateSnapshotFromDocument d document c)"

text \<open>\<^verbatim>\<open>function getSnapshot(fileName: string): DocumentSnapshot\<close>\<close>

definition getSnapshot :: "Deps \<Rightarrow> string \<Rightarrow> Container \<Rightarrow> DocumentSnapshot \<times> Container" where
  "getSnapshot d fileName0 c =
     (let fileName = ensureRealSvelteFilePath d fileName0
      in case SnapshotManager_get fileName (snapshotManager c) of
           Some doc \<Rightarrow> (doc, c)
         | None \<Rightarrow>
             (let c1 = svelteModuleLoader_deleteUnresolvedResolutionsFromCache d fileName c;
                  doc = fromFilePath d fileName;
                  c2 = logged (CallFromFilePath fileName) c1;
                  c3 = snapshotManager_set fileName doc c2
              in (doc, c3)))"

text \<open>\<^verbatim>\<open>function hasFile(filePath: string): boolean\<close>\<close>

definition hasFile :: "string \<Rightarrow> Container \<Rightarrow> bool" where
  "hasFile path c = SnapshotManager_has path (snapshotManager c)"

text \<open>\<^verbatim>\<open>function updateTsOrJsFile(fileName, changes?)\<close>\<close>

definition updateTsOrJsFile ::
  "Deps \<Rightarrow> string \<Rightarrow> TextDocumentContentChangeEvent list option \<Rightarrow> Container \<Rightarrow> Container" where
  "updateTsOrJsFile d fileName changes c =
     (let c1 = (if \<not> SnapshotManager_has fileName (snapshotManager c)
                then svelteModuleLoader_deleteUnresolvedResolutionsFromCache d fileName c
                else c)
      in snapshotManager_updateTsOrJsFile d fileName changes c1)"

text \<open>
  The host's callbacks that read a snapshot: \<^verbatim>\<open>getScriptSnapshot: getSnapshot\<close>,
  \<^verbatim>\<open>getScriptVersion: (fileName) => getSnapshot(fileName).version.toString()\<close> (the
  number is kept as it is, the decimal string of a number determines it) and
  \<^verbatim>\<open>getScriptKind: (fileName) => getSnapshot(fileName).scriptKind\<close>.
\<close>

definition host_getScriptSnapshot ::
  "Deps \<Rightarrow> string \<Rightarrow> Container \<Rightarrow> DocumentSnapshot \<times> Container" where
  "host_getScriptSnapshot d fileName c = getSnapshot d fileName c"

definition host_getScriptVersion :: "Deps \<Rightarrow> string \<Rightarrow> Container \<Rightarrow> int \<times> Container" where
  "host_getScriptVersion d fileName c =
     (case getSnapshot d fileName c of (doc, c') \<Rightarrow> (version doc, c'))"

definition host_getScriptKind :: "Deps \<Rightarrow> string \<Rightarrow> Container \<Rightarrow> ScriptKind \<times> Container" where
  "host_getScriptKind d fileName c =
     (case getSnapshot d fileName c of (doc, c') \<Rightarrow> (scriptKind doc, c'))"

section \<open>The registry of containers\<close>

text \<open>
  \<^verbatim>\<open>const services = new Map<string, Promise<LanguageServiceContainer>>()\<close>.
  A promise in the map is the one a call of \<^verbatim>\<open>createLanguageService\<close> returned; promises
  are numbered by these calls, in their order, and \<open>constructions\<close> lists the
  \<^verbatim>\<open>tsconfigPath\<close> of each call. The container a promise resolves with is the object
  that call returns, so the number of the promise is also the identity of its container:
  two callers hold the same container exactly when they await the same promise. A promise
  that rejects gives no container to any of its callers.
\<close>

record Registry =
  services :: "string \<rightharpoonup> nat"
  constructions :: "string list"

definition initialRegistry :: Registry where
  "initialRegistry = \<lparr>services = Map.empty, constructions = []\<rparr>"

text \<open>
  \<^verbatim>\<open>async function getServiceForTsconfig(tsconfigPath, docContext)\<close>, up to its
  \<^verbatim>\<open>await\<close>: the result is the promise whose outcome the caller receives. An async
  function runs synchronously up to its first \<^verbatim>\<open>await\<close>, and the part of
  \<^verbatim>\<open>createLanguageService\<close> that runs before its own first \<^verbatim>\<open>await\<close> does not touch
  \<^verbatim>\<open>services\<close>, so nothing runs between \<^verbatim>\<open>services.has\<close> and \<^verbatim>\<open>services.set\<close>.
  \<^verbatim>\<open>docContext\<close> is handed to \<^verbatim>\<open>createLanguageService\<close> and plays no part in the
  registry.
\<close>

definition getServiceForTsconfig :: "string \<Rightarrow> Registry \<Rightarrow> nat \<times> Registry" where
  "getServiceForTsconfig tsconfigPath r =
     (case services r tsconfigPath of
        Some service \<Rightarrow> (service, r)
      | None \<Rightarrow>
          (let newService = length (constructions r);
               r1 = r\<lparr>constructions := constructions r @ [tsconfigPath]\<rparr>;
               r2 = r1\<lparr>services := (services r1)(tsconfigPath \<mapsto> newService)\<rparr>
           in (newService, r2)))"

text \<open>
  \<^verbatim>\<open>async function getService(path, workspaceUris, docContext)\<close>;
  \<^verbatim>\<open>findTsConfigPath\<close>, of utils, is a parameter.
\<close>

definition getService ::
  "(string \<Rightarrow> string list \<Rightarrow> string) \<Rightarrow> string \<Rightarrow> string list \<Rightarrow> Registry \<Rightarrow> nat \<times> Registry" where
  "getService findTsConfigPath path workspaceUris r =
     (let tsconfigPath = findTsConfigPath path workspaceUris
      in getServiceForTsconfig tsconfigPath r)"

text \<open>\<^verbatim>\<open>function hasServiceForFile(path, workspaceUris): boolean\<close>\<close>

definition hasServiceForFile ::
  "(string \<Rightarrow> string list \<Rightarrow> string) \<Rightarrow> string \<Rightarrow> string list \<Rightarrow> Registry \<Rightarrow> bool" where
  "hasServiceForFile findTsConfigPath path workspaceUris r =
     (let tsconfigPath = findTsConfigPath path workspaceUris
      in services r tsconfigPath \<noteq> None)"

text \<open>
  The callers of the registry: each one enters through \<^verbatim>\<open>getService\<close> or through
  \<^verbatim>\<open>getServiceForTsconfig\<close>. \<open>tsconfigPathOf\<close> is the key a request resolves to.
\<close>

datatype request = ViaGetService string "string list" | ViaGetServiceForTsconfig string

fun tsconfigPathOf :: "(string \<Rightarrow> string list \<Rightarrow> string) \<Rightarrow> request \<Rightarrow> string" where
  "tsconfigPathOf findTsConfigPath (ViaGetService path workspaceUris) =
     findTsConfigPath path workspaceUris"
| "tsconfigPathOf findTsConfigPath (ViaGetServiceForTsconfig tsconfigPath) = tsconfigPath"

fun call_registry ::
  "(string \<Rightarrow> string list \<Rightarrow> string) \<Rightarrow> request \<Rightarrow> Registry \<Rightarrow> nat \<times> Registry" where
  "call_registry findTsConfigPath (ViaGetService path workspaceUris) r =
     getService findTsConfigPath path workspaceUris r"
| "call_registry findTsConfigPath (ViaGetServiceForTsconfig tsconfigPath) r =
     getServiceForTsconfig tsconfigPath r"

text \<open>
  Any number of callers, in the order their calls start; each call runs to its
  \<^verbatim>\<open>await\<close> before the next one starts. The result lists what each caller awaits.
\<close>

fun call_all ::
  "(string \<Rightarrow> string list \<Rightarrow> string) \<Rightarrow> request list \<Rightarrow> Registry \<Rightarrow> nat list \<times> Registry" where
  "call_all findTsConfigPath [] r = ([], r)"
| "call_all findTsConfigPath (q # qs) r =
     (case call_registry findTsConfigPath q r of
        (p, r1) \<Rightarrow>
          (case call_all findTsConfigPath qs r1 of
             (ps, r2) \<Rightarrow> (p # ps, r2)))"

section \<open>Resolving the project configuration\<close>

text \<open>
  The values of a configuration file and of \<^verbatim>\<open>ts.CompilerOptions\<close>: JSON values (an
  enum member of the TypeScript library is a number). A property that is absent from an
  object is \<^verbatim>\<open>undefined\<close>; an object is a map from property names to values.
\<close>

datatype JsValue =
    JNull
  | JBool bool
  | JNum int
  | JStr string
  | JArr "JsValue list"
  | JObj "(string \<times> JsValue) list"

type_synonym JsObject = "string \<rightharpoonup> JsValue"

text \<open>What JavaScript takes for true in \<^verbatim>\<open>!x\<close>, \<^verbatim>\<open>x && y\<close>, \<^verbatim>\<open>x || y\<close>.\<close>

fun truthy :: "JsValue \<Rightarrow> bool" where
  "truthy JNull = False"
| "truthy (JBool b) = b"
| "truthy (JNum n) = (n \<noteq> 0)"
| "truthy (JStr s) = (s \<noteq> '''')"
| "truthy (JArr xs) = True"
| "truthy (JObj ps) = True"

definition truthy_property :: "JsObject \<Rightarrow> string \<Rightarrow> bool" where
  "truthy_property obj name = (case obj name of None \<Rightarrow> False | Some v \<Rightarrow> truthy v)"

datatype error = TypeError | Thrown string

text \<open>
  The members of the TypeScript library's enums that service.ts names:
  \<^verbatim>\<open>ts.ScriptTarget.Latest\<close>, \<^verbatim>\<open>ts.ModuleKind.ESNext\<close>,
  \<^verbatim>\<open>ts.ModuleResolutionKind.NodeJs\<close>, \<^verbatim>\<open>ts.JsxEmit.Preserve\<close>.
\<close>

definition ScriptTarget_Latest :: JsValue where "ScriptTarget_Latest = JNum 99"
definition ModuleKind_ESNext :: JsValue where "ModuleKind_ESNext = JNum 99"
definition ModuleResolutionKind_NodeJs :: JsValue where "ModuleResolutionKind_NodeJs = JNum 2"
definition JsxEmit_Preserve :: JsValue where "JsxEmit_Preserve = JNum 1"

text \<open>
  \<^verbatim>\<open>ts.ParsedCommandLine\<close>: the fields service.ts reads (\<^verbatim>\<open>options\<close>, \<^verbatim>\<open>fileNames\<close>,
  \<^verbatim>\<open>raw\<close>).
\<close>

record ParsedCommandLine =
  options :: JsObject
  fileNames :: "string list"
  raw :: JsObject

text \<open>
  What \<^verbatim>\<open>getParsedConfig\<close> takes from outside service.ts:
  \<^verbatim>\<open>ts.readConfigFile(tsconfigPath, ts.sys.readFile).config\<close> (an object; \<open>None\<close>
  stands for a \<^verbatim>\<open>config\<close> that is undefined), \<^verbatim>\<open>ts.parseJsonConfigFileContent\<close> (of the JSON, the
  base path, the existing options and the name of the configuration file; its other
  arguments are constants), \<^verbatim>\<open>getPackageInfo\<close> (the \<^verbatim>\<open>path\<close> of the package it
  finds, or what it throws), \<^verbatim>\<open>dirname\<close> and the list \<^verbatim>\<open>ignoredBuildDirectories\<close>
  of SnapshotManager.ts.
\<close>

record ConfigDeps =
  readConfigFile :: "string \<Rightarrow> JsObject option"
  parseJsonConfigFileContent :: "JsObject \<Rightarrow> string \<Rightarrow> JsObject \<Rightarrow> string \<Rightarrow> ParsedCommandLine"
  getPackageInfo :: "string \<Rightarrow> string \<Rightarrow> error + string option"
  dirname :: "string \<Rightarrow> string"
  ignoredBuildDirectories :: "string list"

text \<open>\<^verbatim>\<open>const forcedCompilerOptions: ts.CompilerOptions = {...}\<close>\<close>

definition forcedCompilerOptions :: JsObject where
  "forcedCompilerOptions =
     [''allowNonTsExtensions'' \<mapsto> JBool True,
      ''target'' \<mapsto> ScriptTarget_Latest,
      ''module'' \<mapsto> ModuleKind_ESNext,
      ''moduleResolution'' \<mapsto> ModuleResolutionKind_NodeJs,
      ''allowJs'' \<mapsto> JBool True,
      ''noEmit'' \<mapsto> JBool True,
      ''declaration'' \<mapsto> JBool False,
      ''skipLibCheck'' \<mapsto> JBool True,
      ''jsx'' \<mapsto> JsxEmit_Preserve]"

text \<open>\<^verbatim>\<open>function getDefaultJsConfig()\<close>\<close>

definition getDefaultJsConfig :: JsObject where
  "getDefaultJsConfig =
     [''compilerOptions'' \<mapsto>
        JObj [(''maxNodeModuleJsDepth'', JNum 2), (''allowSyntheticDefaultImports'', JBool True)],
      ''include'' \<mapsto> JArr []]"

text \<open>\<^verbatim>\<open>function getDefaultExclude()\<close>\<close>

definition getDefaultExclude :: "ConfigDeps \<Rightarrow> string list" where
  "getDefaultExclude d = ''node_modules'' # ignoredBuildDirectories d"

text \<open>\<^verbatim>\<open>const workspacePath = tsconfigPath ? dirname(tsconfigPath) : ''\<close>\<close>

definition workspacePath :: "ConfigDeps \<Rightarrow> string \<Rightarrow> string" where
  "workspacePath d tsconfigPath = (if tsconfigPath \<noteq> '''' then dirname d tsconfigPath else '''')"

text \<open>
  The first value of the variable \<^verbatim>\<open>configJson\<close> of \<^verbatim>\<open>getParsedConfig\<close>:
  \<^verbatim>\<open>(tsconfigPath && ts.readConfigFile(tsconfigPath, ts.sys.readFile).config) || getDefaultJsConfig()\<close>.
  The empty path is false, and so is an undefined \<^verbatim>\<open>config\<close>; an object is
  true.
\<close>

definition configJson_loaded :: "ConfigDeps \<Rightarrow> string \<Rightarrow> JsObject" where
  "configJson_loaded d tsconfigPath =
     (case (if tsconfigPath \<noteq> '''' then readConfigFile d tsconfigPath else None) of
        Some config \<Rightarrow> config
      | None \<Rightarrow> getDefaultJsConfig)"

text \<open>
  The variable \<^verbatim>\<open>configJson\<close> as it is handed to \<^verbatim>\<open>ts.parseJsonConfigFileContent\<close>:
  under the loaded value the default exclude, when \<^verbatim>\<open>!configJson.extends\<close>.
  \<^verbatim>\<open>Object.assign({exclude: ...}, configJson)\<close> copies the properties of
  \<^verbatim>\<open>configJson\<close> over the object that holds the default.
\<close>

definition configJson :: "ConfigDeps \<Rightarrow> string \<Rightarrow> JsObject" where
  "configJson d tsconfigPath =
     (let configJson0 = configJson_loaded d tsconfigPath
      in if \<not> truthy_property configJson0 ''extends''
         then [''exclude'' \<mapsto> JArr (map JStr (getDefaultExclude d))] ++ configJson0
         else configJson0)"

text \<open>
  \<^verbatim>\<open>!compilerOptions.jsxFactory || !compilerOptions.jsxFactory.startsWith('svelte')\<close>:
  a true value that is not a string has no \<^verbatim>\<open>startsWith\<close>, and the call throws.
\<close>

definition jsxFactoryMissing :: "JsObject \<Rightarrow> error + bool" where
  "jsxFactoryMissing compilerOptions =
     (if \<not> truthy_property compilerOptions ''jsxFactory'' then Inr True
      else case compilerOptions ''jsxFactory'' of
             Some (JStr s) \<Rightarrow> Inr (\<not> prefix ''svelte'' s)
           | _ \<Rightarrow> Inl TypeError)"

text \<open>\<^verbatim>\<open>function getParsedConfig()\<close>\<close>

definition getParsedConfig :: "ConfigDeps \<Rightarrow> string \<Rightarrow> error + ParsedCommandLine" where
  "getParsedConfig d tsconfigPath =
     (let parsedConfig =
            parseJsonConfigFileContent d (configJson d tsconfigPath) (workspacePath d tsconfigPath)
              forcedCompilerOptions tsconfigPath;
          compilerOptions = options parsedConfig ++ forcedCompilerOptions
      in case jsxFactoryMissing compilerOptions of
           Inl e \<Rightarrow> Inl e
         | Inr False \<Rightarrow> Inr (parsedConfig\<lparr>options := compilerOptions\<rparr>)
         | Inr True \<Rightarrow>
             (let compilerOptions1 = compilerOptions(''jsxFactory'' \<mapsto> JStr ''svelte.createElement'');
                  compilerOptions2 =
                    (if workspacePath d tsconfigPath \<noteq> ''''
                     then (case getPackageInfo d ''svelte-native'' (workspacePath d tsconfigPath) of
                             Inl e \<Rightarrow> compilerOptions1
                           | Inr svelteNativePkgInfo_path \<Rightarrow>
                               (if (case svelteNativePkgInfo_path of
                                      None \<Rightarrow> False | Some p \<Rightarrow> p \<noteq> '''')
                                then compilerOptions1(''jsxFactory'' \<mapsto> JStr ''svelteNative.createElement'')
                                else compilerOptions1))
                     else compilerOptions1)
              in Inr (parsedConfig\<lparr>options := compilerOptions2\<rparr>)))"

section \<open>Predicates of the properties\<close>


text \<open>
  What the registry keeps true from its first state on: the map holds exactly the keys
  \<^verbatim>\<open>createLanguageService\<close> was called with, each once, and the promise stored for a key
  is the one of the call made for that key.
\<close>

definition registry_invariant :: "Registry \<Rightarrow> bool" where
  "registry_invariant r =
     (distinct (constructions r) \<and>
      dom (services r) = set (constructions r) \<and>
      (\<forall>n < length (constructions r). services r (constructions r ! n) = Some n))"

section \<open>Example inputs\<close>

text \<open>
  A container of a project with one open Svelte component, and collaborators that return
  fixed snapshots; the theorems below are evaluated on them.
\<close>

definition exampleSnapshot :: "string \<Rightarrow> int \<Rightarrow> ScriptKind \<Rightarrow> DocumentSnapshot" where
  "exampleSnapshot path v kind = \<lparr>filePath = path, version = v, scriptKind = kind, getText = ''let x = 1''\<rparr>"

definition exampleDeps :: Deps where
  "exampleDeps =
     \<lparr>fromDocument = (\<lambda>document.
          \<lparr>filePath = (case getFilePath document of None \<Rightarrow> '''' | Some p \<Rightarrow> p),
           version = docVersion document,
           scriptKind = (if docText document = ''<script lang=ts>'' then TSX else JSX),
           getText = docText document\<rparr>),
       fromFilePath = (\<lambda>path. \<lparr>filePath = path, version = 0, scriptKind = TS, getText = ''on disk''\<rparr>),
       ensureRealSvelteFilePath =
         (\<lambda>fileName. if fileName = ''/p/App.svelte.ts'' then ''/p/App.svelte'' else fileName),
       SnapshotManager_updateTsOrJsFile = (\<lambda>fileName changes m.
          (case changes of
             None \<Rightarrow> SnapshotManager_set fileName
                       \<lparr>filePath = fileName, version = 1, scriptKind = TS, getText = ''on disk''\<rparr> m
           | Some cs \<Rightarrow> m)),
       resolveOnDisk = (\<lambda>k. if snd k = ''./b'' then Some ''/p/b.ts''
                             else if snd k = ''./c'' then Some ''/p/c.ts'' else None)\<rparr>"

definition exampleContainer :: Container where
  "exampleContainer =
     \<lparr>snapshotManager =
        \<lparr>documents = [''/p/App.svelte'' \<mapsto> exampleSnapshot ''/p/App.svelte'' 3 JSX],
         projectFiles = [''/p/App.svelte'']\<rparr>,
      moduleCache = [(''/p/a.ts'', ''./b'') \<mapsto> None, (''/p/a.ts'', ''./App.svelte'') \<mapsto> Some ''/p/App.svelte''],
      languageService = 0,
      calls = []\<rparr>"

definition exampleDocument :: "int \<Rightarrow> string \<Rightarrow> Document" where
  "exampleDocument v content = \<lparr>getFilePath = Some ''/p/App.svelte'', docVersion = v, docText = content\<rparr>"


text \<open>
  A container whose project declares the file \<^verbatim>\<open>/p/c.ts\<close>, which has no snapshot yet;
  the import of \<^verbatim>\<open>./c\<close> from \<^verbatim>\<open>/p/a.ts\<close> is recorded as unresolved.
\<close>

definition exampleProjectContainer :: Container where
  "exampleProjectContainer =
     \<lparr>snapshotManager = \<lparr>documents = Map.empty, projectFiles = [''/p/a.ts'', ''/p/c.ts'']\<rparr>,
      moduleCache = [(''/p/a.ts'', ''./c'') \<mapsto> None],
      languageService = 0,
      calls = []\<rparr>"

text \<open>Callers of the registry, and how their paths resolve.\<close>

definition exampleFindTsConfigPath :: "string \<Rightarrow> string list \<Rightarrow> string" where
  "exampleFindTsConfigPath path workspaceUris =
     (if path = ''/p/src/App.svelte'' \<or> path = ''/p/src/b.ts'' then ''/p/tsconfig.json'' else '''')"

definition exampleRequests :: "request list" where
  "exampleRequests =
     [ViaGetService ''/p/src/App.svelte'' [''/p''],
      ViaGetServiceForTsconfig ''/p/tsconfig.json'',
      ViaGetServiceForTsconfig ''/q/tsconfig.json'',
      ViaGetService ''/p/src/b.ts'' [''/p'']]"

text \<open>
  Configuration files: one with options and an exclude list of its own, one whose
  \<^verbatim>\<open>extends\<close> is the empty string, one that extends another; a parser that ignores
  the forced options it is handed; no svelte-native package.
\<close>

definition exampleConfigDeps :: ConfigDeps where
  "exampleConfigDeps =
     \<lparr>readConfigFile = (\<lambda>tsconfigPath.
          if tsconfigPath = ''/p/tsconfig.json''
          then Some [''compilerOptions'' \<mapsto> JObj [(''noEmit'', JBool False), (''target'', JStr ''es5'')],
                     ''exclude'' \<mapsto> JArr [JStr ''dist'']]
          else if tsconfigPath = ''/q/tsconfig.json''
          then Some [''extends'' \<mapsto> JStr '''']
          else if tsconfigPath = ''/r/tsconfig.json''
          then Some [''extends'' \<mapsto> JStr ''./base.json'']
          else None),
       parseJsonConfigFileContent = (\<lambda>json basePath existingOptions configFileName.
          \<lparr>options = [''noEmit'' \<mapsto> JBool False, ''target'' \<mapsto> JNum 1,
                      ''declaration'' \<mapsto> JBool True, ''strict'' \<mapsto> JBool True],
           fileNames = [''/p/src/a.ts''],
           raw = json\<rparr>),
       getPackageInfo = (\<lambda>packageName fromPath. Inl (Thrown ''Cannot find module'')),
       dirname = (\<lambda>path. take 2 path),
       ignoredBuildDirectories = [''__sapper__'', ''.svelte-kit'']\<rparr>"

section \<open>Properties of the container\<close>

lemma updateSnapshotFromDocument_same_version:
  assumes "SnapshotManager_get (case getFilePath document of None \<Rightarrow> '''' | Some p \<Rightarrow> p)
             (snapshotManager c) = Some prev"
    and "docVersion document = version prev"
  shows "updateSnapshotFromDocument d document c = (prev, c)"
  using assms by (simp add: updateSnapshotFromDocument_def)

text \<open>
  Claim C2. When the snapshot manager holds a snapshot for the document's path and the
  document's version equals that snapshot's version, \<^verbatim>\<open>updateSnapshot\<close> returns the
  cached snapshot and leaves the container as it was: no collaborator is called (no new
  snapshot is made, nothing is set), the snapshot manager is the same, the engine is the
  same, every script version the engine can read through the host is the same, and a
  second call gives the same again.
\<close>

theorem updateSnapshot_unchanged_version:
  assumes "SnapshotManager_get (case getFilePath document of None \<Rightarrow> '''' | Some p \<Rightarrow> p)
             (snapshotManager c) = Some prev"
    and "docVersion document = version prev"
  shows "updateSnapshot d (IsDocument document) c = (prev, c) \<and>
         calls (snd (updateSnapshot d (IsDocument document) c)) = calls c \<and>
         snapshotManager (snd (updateSnapshot d (IsDocument document) c)) = snapshotManager c \<and>
         Container_getService (snd (updateSnapshot d (IsDocument document) c)) = Container_getService c \<and>
         (\<forall>fileName. host_getScriptVersion d fileName (snd (updateSnapshot d (IsDocument document) c))
                     = host_getScriptVersion d fileName c) \<and>
         updateSnapshot d (IsDocument document) (snd (updateSnapshot d (IsDocument document) c))
           = updateSnapshot d (IsDocument document) c"
  using updateSnapshotFromDocument_same_version [OF assms, of d]
  by (simp add: updateSnapshot_def)

theorem updateSnapshot_unchanged_version_witness:
  "updateSnapshot exampleDeps (IsDocument (exampleDocument 3 ''<script lang=ts>'')) exampleContainer
     = (exampleSnapshot ''/p/App.svelte'' 3 JSX, exampleContainer) \<and>
   fst (host_getScriptVersion exampleDeps ''/p/App.svelte.ts''
     (snd (updateSnapshot exampleDeps (IsDocument (exampleDocument 3 ''<script lang=ts>'')) exampleContainer))) = 3"
proof -
  have g: "SnapshotManager_get (case getFilePath (exampleDocument 3 ''<script lang=ts>'') of None \<Rightarrow> '''' | Some p \<Rightarrow> p)
             (snapshotManager exampleContainer) = Some (exampleSnapshot ''/p/App.svelte'' 3 JSX)"
    by (simp add: SnapshotManager_get_def exampleContainer_def exampleDocument_def)
  have v: "docVersion (exampleDocument 3 ''<script lang=ts>'') = version (exampleSnapshot ''/p/App.svelte'' 3 JSX)"
    by (simp add: exampleDocument_def exampleSnapshot_def)
  have "fst (host_getScriptVersion exampleDeps ''/p/App.svelte.ts'' exampleContainer) = 3"
    by (simp add: Let_def host_getScriptVersion_def getSnapshot_def exampleDeps_def SnapshotManager_get_def
        exampleContainer_def exampleSnapshot_def)
  with updateSnapshot_unchanged_version [OF g v, of exampleDeps] show ?thesis by simp
qed

lemma updateSnapshotFromDocument_changed_version:
  assumes "SnapshotManager_get (case getFilePath document of None \<Rightarrow> '''' | Some p \<Rightarrow> p)
             (snapshotManager c) = Some prev"
    and "docVersion document \<noteq> version prev"
  shows "updateSnapshotFromDocument d document c =
           (fromDocument d document,
            (if scriptKind prev \<noteq> scriptKind (fromDocument d document)
             then restartLanguageService else id)
              (snapshotManager_set (case getFilePath document of None \<Rightarrow> '''' | Some p \<Rightarrow> p)
                 (fromDocument d document) (logged (CallFromDocument document) c)))"
  using assms by (simp add: updateSnapshotFromDocument_def Let_def)


lemma restartLanguageService_simps:
  "languageService (restartLanguageService c) = Suc (languageService c)"
  "calls (restartLanguageService c) =
     calls c @ [CallDispose (languageService c), CallCreateLanguageService (Suc (languageService c))]"
  "snapshotManager (restartLanguageService c) = snapshotManager c"
  "moduleCache (restartLanguageService c) = moduleCache c"
  by (simp_all add: restartLanguageService_def logged_def Let_def)

lemma snapshotManager_set_simps:
  "languageService (snapshotManager_set p s c) = languageService c"
  "calls (snapshotManager_set p s c) = calls c @ [CallSnapshotSet p]"
  "documents (snapshotManager (snapshotManager_set p s c)) = (documents (snapshotManager c))(p \<mapsto> s)"
  "moduleCache (snapshotManager_set p s c) = moduleCache c"
  by (simp_all add: snapshotManager_set_def SnapshotManager_set_def logged_def)

lemma logged_simps:
  "languageService (logged e c) = languageService c"
  "calls (logged e c) = calls c @ [e]"
  "snapshotManager (logged e c) = snapshotManager c"
  "moduleCache (logged e c) = moduleCache c"
  by (simp_all add: logged_def)

lemma deleteUnresolved_simps:
  "languageService (svelteModuleLoader_deleteUnresolvedResolutionsFromCache d p c) = languageService c"
  "calls (svelteModuleLoader_deleteUnresolvedResolutionsFromCache d p c) =
     calls c @ [CallDeleteUnresolvedResolutionsFromCache p]"
  "snapshotManager (svelteModuleLoader_deleteUnresolvedResolutionsFromCache d p c) = snapshotManager c"
  "moduleCache (svelteModuleLoader_deleteUnresolvedResolutionsFromCache d p c) =
     deleteUnresolvedResolutionsFromCache (resolveOnDisk d) p (moduleCache c)"
  by (simp_all add: svelteModuleLoader_deleteUnresolvedResolutionsFromCache_def logged_def)

text \<open>
  Claim C3. When the snapshot manager holds a snapshot for the document's path and the
  document's version differs from that snapshot's, \<^verbatim>\<open>updateSnapshot\<close> returns the
  snapshot made from the document. If its script kind differs from the cached one's, the
  engine the container held is disposed and a new one is created after the snapshot is
  set, and \<^verbatim>\<open>getService()\<close> returns another instance than before; if the script kind
  is the same, no engine is disposed or created and \<^verbatim>\<open>getService()\<close> returns the
  instance it returned before.
\<close>

theorem updateSnapshot_script_kind:
  assumes "SnapshotManager_get (case getFilePath document of None \<Rightarrow> '''' | Some p \<Rightarrow> p)
             (snapshotManager c) = Some prev"
    and "docVersion document \<noteq> version prev"
    and "updateSnapshot d (IsDocument document) c = (newSnapshot, c')"
  shows "newSnapshot = fromDocument d document \<and>
         (scriptKind newSnapshot \<noteq> scriptKind prev \<longrightarrow>
            Container_getService c' \<noteq> Container_getService c \<and>
            calls c' = calls c @
              [CallFromDocument document,
               CallSnapshotSet (case getFilePath document of None \<Rightarrow> '''' | Some p \<Rightarrow> p),
               CallDispose (Container_getService c),
               CallCreateLanguageService (Container_getService c')]) \<and>
         (scriptKind newSnapshot = scriptKind prev \<longrightarrow>
            Container_getService c' = Container_getService c \<and>
            calls c' = calls c @
              [CallFromDocument document,
               CallSnapshotSet (case getFilePath document of None \<Rightarrow> '''' | Some p \<Rightarrow> p)])"
proof -
  let ?path = "case getFilePath document of None \<Rightarrow> '''' | Some p \<Rightarrow> p"
  let ?stored = "snapshotManager_set ?path (fromDocument d document)
                   (logged (CallFromDocument document) c)"
  from assms(3) have "(newSnapshot, c') = updateSnapshotFromDocument d document c"
    by (simp add: updateSnapshot_def)
  also note updateSnapshotFromDocument_changed_version [OF assms(1,2), of d]
  finally have n: "newSnapshot = fromDocument d document"
    and c': "c' = (if scriptKind prev \<noteq> scriptKind (fromDocument d document)
                   then restartLanguageService else id) ?stored"
    by simp_all
  show ?thesis
  proof (cases "scriptKind prev \<noteq> scriptKind (fromDocument d document)")
    case True
    with c' have "c' = restartLanguageService ?stored" by simp
    with True n show ?thesis
      by (simp add: Container_getService_def restartLanguageService_simps
          snapshotManager_set_simps logged_simps)
  next
    case False
    with c' have "c' = ?stored" by simp
    with False n show ?thesis
      by (simp add: Container_getService_def snapshotManager_set_simps logged_simps)
  qed
qed

theorem updateSnapshot_script_kind_witness:
  "Container_getService (snd (updateSnapshot exampleDeps
      (IsDocument (exampleDocument 4 ''<script lang=ts>'')) exampleContainer))
     \<noteq> Container_getService exampleContainer \<and>
   Container_getService (snd (updateSnapshot exampleDeps
      (IsDocument (exampleDocument 4 ''<script>'')) exampleContainer))
     = Container_getService exampleContainer"
proof -
  let ?a = "exampleDocument 4 ''<script lang=ts>''"
  let ?b = "exampleDocument 4 ''<script>''"
  let ?prev = "exampleSnapshot ''/p/App.svelte'' 3 JSX"
  have ga: "SnapshotManager_get (case getFilePath ?a of None \<Rightarrow> '''' | Some p \<Rightarrow> p)
             (snapshotManager exampleContainer) = Some ?prev"
    by (simp add: SnapshotManager_get_def exampleContainer_def exampleDocument_def)
  have gb: "SnapshotManager_get (case getFilePath ?b of None \<Rightarrow> '''' | Some p \<Rightarrow> p)
             (snapshotManager exampleContainer) = Some ?prev"
    by (simp add: SnapshotManager_get_def exampleContainer_def exampleDocument_def)
  have va: "docVersion ?a \<noteq> version ?prev" and vb: "docVersion ?b \<noteq> version ?prev"
    by (simp_all add: exampleDocument_def exampleSnapshot_def)
  have ka: "scriptKind (fromDocument exampleDeps ?a) \<noteq> scriptKind ?prev"
    and kb: "scriptKind (fromDocument exampleDeps ?b) = scriptKind ?prev"
    by (simp_all add: exampleDeps_def exampleDocument_def exampleSnapshot_def)
  from updateSnapshot_script_kind [OF ga va surjective_pairing, of exampleDeps] ka
  have a: "Container_getService (snd (updateSnapshot exampleDeps (IsDocument ?a) exampleContainer))
     \<noteq> Container_getService exampleContainer"
    by simp
  from updateSnapshot_script_kind [OF gb vb surjective_pairing, of exampleDeps] kb
  have b: "Container_getService (snd (updateSnapshot exampleDeps (IsDocument ?b) exampleContainer))
     = Container_getService exampleContainer"
    by simp
  from a b show ?thesis by simp
qed

lemma updateSnapshotFromFilePath_new_path:
  assumes "SnapshotManager_get path (snapshotManager c) = None"
  shows "updateSnapshotFromFilePath d path c =
           (fromFilePath d path,
            snapshotManager_set path (fromFilePath d path)
              (logged (CallFromFilePath path)
                 (svelteModuleLoader_deleteUnresolvedResolutionsFromCache d path c)))"
  using assms by (simp add: updateSnapshotFromFilePath_def Let_def)

lemma updateSnapshotFromFilePath_cached:
  assumes "SnapshotManager_get path (snapshotManager c) = Some prev"
  shows "updateSnapshotFromFilePath d path c = (prev, c)"
  using assms by (simp add: updateSnapshotFromFilePath_def)

lemma getSnapshot_new_path:
  assumes "SnapshotManager_get (ensureRealSvelteFilePath d fileName) (snapshotManager c) = None"
  shows "getSnapshot d fileName c =
           (fromFilePath d (ensureRealSvelteFilePath d fileName),
            snapshotManager_set (ensureRealSvelteFilePath d fileName)
              (fromFilePath d (ensureRealSvelteFilePath d fileName))
              (logged (CallFromFilePath (ensureRealSvelteFilePath d fileName))
                 (svelteModuleLoader_deleteUnresolvedResolutionsFromCache d
                    (ensureRealSvelteFilePath d fileName) c)))"
  using assms by (simp add: getSnapshot_def Let_def)

lemma getSnapshot_cached:
  assumes "SnapshotManager_get (ensureRealSvelteFilePath d fileName) (snapshotManager c) = Some doc"
  shows "getSnapshot d fileName c = (doc, c)"
  using assms by (simp add: getSnapshot_def Let_def)


lemma updateTsOrJsFile_known_path:
  assumes "SnapshotManager_has path (snapshotManager c)"
  shows "updateTsOrJsFile d path changes c = snapshotManager_updateTsOrJsFile d path changes c"
  using assms by (simp add: updateTsOrJsFile_def Let_def)






text \<open>
  Claim C6, as amended. \<^verbatim>\<open>updateSnapshot\<close> with a bare file path reads the file from
  disk and classifies it (\<^verbatim>\<open>DocumentSnapshot.fromFilePath\<close>) only when the snapshot
  manager holds no snapshot for the path; the new snapshot is then stored and returned.
  When a snapshot is cached, it is returned as it is, nothing is read and the container
  is unchanged.
\<close>

theorem updateSnapshot_file_path_reads_when_absent:
  "(SnapshotManager_get path (snapshotManager c) = None \<longrightarrow>
      fst (updateSnapshot d (IsString path) c) = fromFilePath d path \<and>
      SnapshotManager_get path (snapshotManager (snd (updateSnapshot d (IsString path) c)))
        = Some (fromFilePath d path) \<and>
      calls (snd (updateSnapshot d (IsString path) c)) = calls c @
        [CallDeleteUnresolvedResolutionsFromCache path, CallFromFilePath path, CallSnapshotSet path]) \<and>
   (\<forall>prev. SnapshotManager_get path (snapshotManager c) = Some prev \<longrightarrow>
      updateSnapshot d (IsString path) c = (prev, c))"
proof -
  have absent: "fst (updateSnapshot d (IsString path) c) = fromFilePath d path \<and>
      SnapshotManager_get path (snapshotManager (snd (updateSnapshot d (IsString path) c)))
        = Some (fromFilePath d path) \<and>
      calls (snd (updateSnapshot d (IsString path) c)) = calls c @
        [CallDeleteUnresolvedResolutionsFromCache path, CallFromFilePath path, CallSnapshotSet path]"
    if "SnapshotManager_get path (snapshotManager c) = None"
    using updateSnapshotFromFilePath_new_path [OF that, of d]
    by (simp add: updateSnapshot_def snapshotManager_set_simps logged_simps
        deleteUnresolved_simps SnapshotManager_get_def)
  have cached: "updateSnapshot d (IsString path) c = (prev, c)"
    if "SnapshotManager_get path (snapshotManager c) = Some prev" for prev
    using updateSnapshotFromFilePath_cached [OF that, of d]
    by (simp add: updateSnapshot_def)
  from absent cached show ?thesis by blast
qed

theorem updateSnapshot_file_path_reads_when_absent_witness:
  "fst (updateSnapshot exampleDeps (IsString ''/p/b.ts'') exampleContainer)
     = fromFilePath exampleDeps ''/p/b.ts'' \<and>
   updateSnapshot exampleDeps (IsString ''/p/App.svelte'') exampleContainer
     = (exampleSnapshot ''/p/App.svelte'' 3 JSX, exampleContainer)"
proof -
  have a: "SnapshotManager_get ''/p/b.ts'' (snapshotManager exampleContainer) = None"
    by (simp add: SnapshotManager_get_def exampleContainer_def)
  have b: "SnapshotManager_get ''/p/App.svelte'' (snapshotManager exampleContainer)
             = Some (exampleSnapshot ''/p/App.svelte'' 3 JSX)"
    by (simp add: SnapshotManager_get_def exampleContainer_def)
  from a b
    updateSnapshot_file_path_reads_when_absent [of "''/p/b.ts''" exampleContainer exampleDeps]
    updateSnapshot_file_path_reads_when_absent [of "''/p/App.svelte''" exampleContainer exampleDeps]
  show ?thesis by blast
qed

text \<open>
  Claim C6 as it is stated fails: for a path whose snapshot is cached,
  \<^verbatim>\<open>updateSnapshot\<close> with the bare path returns the cached snapshot, which is not the
  one a read of the disk gives (another version, another script kind, another text), and
  \<^verbatim>\<open>DocumentSnapshot.fromFilePath\<close> is not called.
\<close>

theorem updateSnapshot_file_path_rereads_counterexample:
  "fst (updateSnapshot exampleDeps (IsString ''/p/App.svelte'') exampleContainer)
     \<noteq> fromFilePath exampleDeps ''/p/App.svelte'' \<and>
   scriptKind (fst (updateSnapshot exampleDeps (IsString ''/p/App.svelte'') exampleContainer))
     \<noteq> scriptKind (fromFilePath exampleDeps ''/p/App.svelte'') \<and>
   getText (fst (updateSnapshot exampleDeps (IsString ''/p/App.svelte'') exampleContainer))
     \<noteq> getText (fromFilePath exampleDeps ''/p/App.svelte'') \<and>
   CallFromFilePath ''/p/App.svelte''
     \<notin> set (calls (snd (updateSnapshot exampleDeps (IsString ''/p/App.svelte'') exampleContainer)))"
  by (simp add: updateSnapshot_def updateSnapshotFromFilePath_def SnapshotManager_get_def
      exampleContainer_def exampleDeps_def exampleSnapshot_def)

text \<open>
  Claim C8. \<^verbatim>\<open>deleteSnapshot(p)\<close> calls the module loader's
  \<^verbatim>\<open>deleteFromModuleCache(p)\<close>, then the snapshot manager's \<^verbatim>\<open>delete(p)\<close>:
  afterwards the snapshot manager has no snapshot for \<open>p\<close>, \<^verbatim>\<open>hasFile(p)\<close> is false
  (the path is neither cached nor a declared project file any more), and no entry of the
  resolution cache resolves to \<open>p\<close>. It has no failing branch: when there is no
  snapshot for \<open>p\<close> the snapshots are left as they were, and when the snapshot manager
  does not have \<open>p\<close> at all it is left as it was. The other paths keep their snapshots
  and their answer to \<^verbatim>\<open>hasFile\<close>.
\<close>

theorem deleteSnapshot_removes:
  "SnapshotManager_get path (snapshotManager (deleteSnapshot path c)) = None \<and>
   \<not> hasFile path (deleteSnapshot path c) \<and>
   moduleCache (deleteSnapshot path c) = deleteFromModuleCache path (moduleCache c) \<and>
   (\<forall>k. moduleCache (deleteSnapshot path c) k \<noteq> Some (Some path)) \<and>
   calls (deleteSnapshot path c) = calls c @ [CallDeleteFromModuleCache path, CallSnapshotDelete path] \<and>
   Container_getService (deleteSnapshot path c) = Container_getService c \<and>
   (SnapshotManager_get path (snapshotManager c) = None \<longrightarrow>
      documents (snapshotManager (deleteSnapshot path c)) = documents (snapshotManager c)) \<and>
   (\<not> hasFile path c \<longrightarrow>
      snapshotManager (deleteSnapshot path c) = snapshotManager c) \<and>
   (\<forall>other. other \<noteq> path \<longrightarrow>
      SnapshotManager_get other (snapshotManager (deleteSnapshot path c))
        = SnapshotManager_get other (snapshotManager c) \<and>
      hasFile other (deleteSnapshot path c) = hasFile other c)"
proof -
  have sm: "snapshotManager (deleteSnapshot path c) = SnapshotManager_delete path (snapshotManager c)"
    and mc: "moduleCache (deleteSnapshot path c) = deleteFromModuleCache path (moduleCache c)"
    and cs: "calls (deleteSnapshot path c)
               = calls c @ [CallDeleteFromModuleCache path, CallSnapshotDelete path]"
    and ls: "languageService (deleteSnapshot path c) = languageService c"
    by (simp_all add: deleteSnapshot_def snapshotManager_delete_def
        svelteModuleLoader_deleteFromModuleCache_def logged_def)
  have gone: "SnapshotManager_get path (snapshotManager (deleteSnapshot path c)) = None"
    by (simp add: sm SnapshotManager_get_def SnapshotManager_delete_def)
  have nofile: "\<not> hasFile path (deleteSnapshot path c)"
    by (simp add: sm hasFile_def SnapshotManager_has_def SnapshotManager_delete_def)
  have others: "SnapshotManager_get other (snapshotManager (deleteSnapshot path c))
        = SnapshotManager_get other (snapshotManager c) \<and>
      hasFile other (deleteSnapshot path c) = hasFile other c" if "other \<noteq> path" for other
    using that
    by (simp add: sm hasFile_def SnapshotManager_has_def SnapshotManager_get_def
        SnapshotManager_delete_def)
  have nosnapshot: "documents (snapshotManager (deleteSnapshot path c)) = documents (snapshotManager c)"
    if "SnapshotManager_get path (snapshotManager c) = None"
  proof -
    from that have "(documents (snapshotManager c))(path := None) = documents (snapshotManager c)"
      by (simp add: SnapshotManager_get_def fun_upd_idem)
    then show ?thesis by (simp add: sm SnapshotManager_delete_def)
  qed
  have absent: "snapshotManager (deleteSnapshot path c) = snapshotManager c"
    if "\<not> hasFile path c"
  proof -
    from that have d: "(documents (snapshotManager c))(path := None) = documents (snapshotManager c)"
      and p: "filter (\<lambda>s. s \<noteq> path) (projectFiles (snapshotManager c)) = projectFiles (snapshotManager c)"
      by (auto simp add: hasFile_def SnapshotManager_has_def fun_upd_idem filter_id_conv)
    then show ?thesis by (simp add: sm SnapshotManager_delete_def)
  qed
  have cache: "moduleCache (deleteSnapshot path c) k \<noteq> Some (Some path)" for k
    by (simp add: mc deleteFromModuleCache_def)
  from gone nofile mc cs ls others nosnapshot absent cache show ?thesis
    by (simp add: Container_getService_def)
qed

theorem deleteSnapshot_removes_witness:
  "hasFile ''/p/App.svelte'' exampleContainer \<and>
   \<not> hasFile ''/p/App.svelte'' (deleteSnapshot ''/p/App.svelte'' exampleContainer) \<and>
   moduleCache exampleContainer (''/p/a.ts'', ''./App.svelte'') = Some (Some ''/p/App.svelte'') \<and>
   moduleCache (deleteSnapshot ''/p/App.svelte'' exampleContainer) (''/p/a.ts'', ''./App.svelte'')
     \<noteq> Some (Some ''/p/App.svelte'') \<and>
   \<not> hasFile ''/p/b.ts'' exampleContainer \<and>
   snapshotManager (deleteSnapshot ''/p/b.ts'' exampleContainer) = snapshotManager exampleContainer \<and>
   SnapshotManager_get ''/p/App.svelte'' (snapshotManager (deleteSnapshot ''/p/b.ts'' exampleContainer))
     = SnapshotManager_get ''/p/App.svelte'' (snapshotManager exampleContainer) \<and>
   hasFile ''/p/c.ts'' exampleProjectContainer \<and>
   SnapshotManager_get ''/p/c.ts'' (snapshotManager exampleProjectContainer) = None \<and>
   \<not> hasFile ''/p/c.ts'' (deleteSnapshot ''/p/c.ts'' exampleProjectContainer) \<and>
   documents (snapshotManager (deleteSnapshot ''/p/c.ts'' exampleProjectContainer))
     = documents (snapshotManager exampleProjectContainer)"
proof -
  have a: "hasFile ''/p/App.svelte'' exampleContainer"
    and b: "\<not> hasFile ''/p/b.ts'' exampleContainer"
    and m: "moduleCache exampleContainer (''/p/a.ts'', ''./App.svelte'') = Some (Some ''/p/App.svelte'')"
    and o: "''/p/App.svelte'' \<noteq> ''/p/b.ts''"
    by (simp_all add: hasFile_def SnapshotManager_has_def exampleContainer_def)
  have pc: "hasFile ''/p/c.ts'' exampleProjectContainer"
    and pn: "SnapshotManager_get ''/p/c.ts'' (snapshotManager exampleProjectContainer) = None"
    by (simp_all add: hasFile_def SnapshotManager_has_def SnapshotManager_get_def
        exampleProjectContainer_def)
  note t1 = deleteSnapshot_removes [of "''/p/App.svelte''" exampleContainer]
  note t2 = deleteSnapshot_removes [of "''/p/b.ts''" exampleContainer]
  note t3 = deleteSnapshot_removes [of "''/p/c.ts''" exampleProjectContainer]
  from t1 have x1: "\<not> hasFile ''/p/App.svelte'' (deleteSnapshot ''/p/App.svelte'' exampleContainer)"
    by (rule conjunct2 [THEN conjunct1])
  from t1 have "\<forall>k. moduleCache (deleteSnapshot ''/p/App.svelte'' exampleContainer) k
                   \<noteq> Some (Some ''/p/App.svelte'')"
    by (rule conjunct2 [THEN conjunct2, THEN conjunct2, THEN conjunct1])
  then have x2: "moduleCache (deleteSnapshot ''/p/App.svelte'' exampleContainer) (''/p/a.ts'', ''./App.svelte'')
     \<noteq> Some (Some ''/p/App.svelte'')"
    by (rule spec)
  from t2 have r: "(\<not> hasFile ''/p/b.ts'' exampleContainer \<longrightarrow>
      snapshotManager (deleteSnapshot ''/p/b.ts'' exampleContainer) = snapshotManager exampleContainer) \<and>
     (\<forall>other. other \<noteq> ''/p/b.ts'' \<longrightarrow>
      SnapshotManager_get other (snapshotManager (deleteSnapshot ''/p/b.ts'' exampleContainer))
        = SnapshotManager_get other (snapshotManager exampleContainer) \<and>
      hasFile other (deleteSnapshot ''/p/b.ts'' exampleContainer) = hasFile other exampleContainer)"
    by (rule conjunct2 [THEN conjunct2, THEN conjunct2, THEN conjunct2, THEN conjunct2,
          THEN conjunct2, THEN conjunct2])
  from r b have x3: "snapshotManager (deleteSnapshot ''/p/b.ts'' exampleContainer)
                       = snapshotManager exampleContainer"
    by (rule conjunct1 [THEN mp])
  from r have "''/p/App.svelte'' \<noteq> ''/p/b.ts'' \<longrightarrow>
      SnapshotManager_get ''/p/App.svelte'' (snapshotManager (deleteSnapshot ''/p/b.ts'' exampleContainer))
        = SnapshotManager_get ''/p/App.svelte'' (snapshotManager exampleContainer) \<and>
      hasFile ''/p/App.svelte'' (deleteSnapshot ''/p/b.ts'' exampleContainer)
        = hasFile ''/p/App.svelte'' exampleContainer"
    by (rule conjunct2 [THEN spec])
  from this o have x4: "SnapshotManager_get ''/p/App.svelte''
        (snapshotManager (deleteSnapshot ''/p/b.ts'' exampleContainer))
        = SnapshotManager_get ''/p/App.svelte'' (snapshotManager exampleContainer)"
    by (rule mp [THEN conjunct1])
  from t3 have x5: "\<not> hasFile ''/p/c.ts'' (deleteSnapshot ''/p/c.ts'' exampleProjectContainer)"
    by (rule conjunct2 [THEN conjunct1])
  from t3 have "SnapshotManager_get ''/p/c.ts'' (snapshotManager exampleProjectContainer) = None \<longrightarrow>
      documents (snapshotManager (deleteSnapshot ''/p/c.ts'' exampleProjectContainer))
        = documents (snapshotManager exampleProjectContainer)"
    by (rule conjunct2 [THEN conjunct2, THEN conjunct2, THEN conjunct2, THEN conjunct2,
          THEN conjunct2, THEN conjunct1])
  from this pn have x6: "documents (snapshotManager (deleteSnapshot ''/p/c.ts'' exampleProjectContainer))
        = documents (snapshotManager exampleProjectContainer)"
    by (rule mp)
  from a x1 m x2 b x3 x4 pc pn x5 x6 show ?thesis by (intro conjI)
qed

text \<open>
  Claim C10. \<^verbatim>\<open>getSnapshot\<close>, which the host uses for \<^verbatim>\<open>getScriptSnapshot\<close>,
  \<^verbatim>\<open>getScriptVersion\<close> and \<^verbatim>\<open>getScriptKind\<close>, first maps the requested name with
  \<^verbatim>\<open>ensureRealSvelteFilePath\<close> and has no branch that returns nothing: it returns the
  cached snapshot of the real path, or else the one it makes from disk and stores. After
  the call the snapshot manager holds the returned snapshot under the real path, so
  \<^verbatim>\<open>hasFile\<close> of the real path is true. (\<^verbatim>\<open>DocumentSnapshot.fromFilePath\<close> is taken
  to return a snapshot for every path, as its use in service.ts supposes.)
\<close>

theorem getSnapshot_always_returns_stored:
  "SnapshotManager_get (ensureRealSvelteFilePath d fileName)
       (snapshotManager (snd (getSnapshot d fileName c)))
     = Some (fst (getSnapshot d fileName c)) \<and>
   hasFile (ensureRealSvelteFilePath d fileName) (snd (getSnapshot d fileName c)) \<and>
   (SnapshotManager_get (ensureRealSvelteFilePath d fileName) (snapshotManager c) = None \<longrightarrow>
      fst (getSnapshot d fileName c) = fromFilePath d (ensureRealSvelteFilePath d fileName) \<and>
      calls (snd (getSnapshot d fileName c)) = calls c @
        [CallDeleteUnresolvedResolutionsFromCache (ensureRealSvelteFilePath d fileName),
         CallFromFilePath (ensureRealSvelteFilePath d fileName),
         CallSnapshotSet (ensureRealSvelteFilePath d fileName)]) \<and>
   (\<forall>doc. SnapshotManager_get (ensureRealSvelteFilePath d fileName) (snapshotManager c) = Some doc \<longrightarrow>
      getSnapshot d fileName c = (doc, c)) \<and>
   host_getScriptSnapshot d fileName c = getSnapshot d fileName c \<and>
   host_getScriptVersion d fileName c
     = (version (fst (getSnapshot d fileName c)), snd (getSnapshot d fileName c)) \<and>
   host_getScriptKind d fileName c
     = (scriptKind (fst (getSnapshot d fileName c)), snd (getSnapshot d fileName c))"
proof -
  let ?real = "ensureRealSvelteFilePath d fileName"
  have absent: "getSnapshot d fileName c =
           (fromFilePath d ?real,
            snapshotManager_set ?real (fromFilePath d ?real)
              (logged (CallFromFilePath ?real)
                 (svelteModuleLoader_deleteUnresolvedResolutionsFromCache d ?real c)))"
    if "SnapshotManager_get ?real (snapshotManager c) = None"
    using that by (rule getSnapshot_new_path)
  have cached: "getSnapshot d fileName c = (doc, c)"
    if "SnapshotManager_get ?real (snapshotManager c) = Some doc" for doc
    using that by (rule getSnapshot_cached)
  have stored: "SnapshotManager_get ?real (snapshotManager (snd (getSnapshot d fileName c)))
     = Some (fst (getSnapshot d fileName c))"
  proof (cases "SnapshotManager_get ?real (snapshotManager c)")
    case None
    from absent [OF None] show ?thesis
      by (simp add: SnapshotManager_get_def snapshotManager_set_simps)
  next
    case (Some doc)
    with cached [OF Some] show ?thesis by simp
  qed
  then have has: "hasFile ?real (snd (getSnapshot d fileName c))"
    by (simp add: hasFile_def SnapshotManager_has_def SnapshotManager_get_def)
  have new: "fst (getSnapshot d fileName c) = fromFilePath d ?real \<and>
      calls (snd (getSnapshot d fileName c)) = calls c @
        [CallDeleteUnresolvedResolutionsFromCache ?real, CallFromFilePath ?real, CallSnapshotSet ?real]"
    if "SnapshotManager_get ?real (snapshotManager c) = None"
    using absent [OF that]
    by (simp add: snapshotManager_set_simps logged_simps deleteUnresolved_simps)
  have host: "host_getScriptSnapshot d fileName c = getSnapshot d fileName c \<and>
     host_getScriptVersion d fileName c
       = (version (fst (getSnapshot d fileName c)), snd (getSnapshot d fileName c)) \<and>
     host_getScriptKind d fileName c
       = (scriptKind (fst (getSnapshot d fileName c)), snd (getSnapshot d fileName c))"
    by (simp add: host_getScriptSnapshot_def host_getScriptVersion_def host_getScriptKind_def
        split_beta)
  from stored has new cached host show ?thesis by blast
qed

theorem getSnapshot_always_returns_stored_witness:
  "\<not> hasFile ''/p/b.ts'' exampleContainer \<and>
   hasFile ''/p/b.ts'' (snd (getSnapshot exampleDeps ''/p/b.ts'' exampleContainer)) \<and>
   fst (getSnapshot exampleDeps ''/p/b.ts'' exampleContainer) = fromFilePath exampleDeps ''/p/b.ts'' \<and>
   getSnapshot exampleDeps ''/p/App.svelte.ts'' exampleContainer
     = (exampleSnapshot ''/p/App.svelte'' 3 JSX, exampleContainer) \<and>
   hasFile ''/p/App.svelte'' (snd (getSnapshot exampleDeps ''/p/App.svelte.ts'' exampleContainer))"
proof -
  have e: "ensureRealSvelteFilePath exampleDeps ''/p/b.ts'' = ''/p/b.ts''"
    and v: "ensureRealSvelteFilePath exampleDeps ''/p/App.svelte.ts'' = ''/p/App.svelte''"
    by (simp_all add: exampleDeps_def)
  have n: "SnapshotManager_get ''/p/b.ts'' (snapshotManager exampleContainer) = None"
    and s: "SnapshotManager_get ''/p/App.svelte'' (snapshotManager exampleContainer)
              = Some (exampleSnapshot ''/p/App.svelte'' 3 JSX)"
    and h: "\<not> hasFile ''/p/b.ts'' exampleContainer"
    by (simp_all add: hasFile_def SnapshotManager_has_def SnapshotManager_get_def exampleContainer_def)
  from getSnapshot_always_returns_stored [of exampleDeps "''/p/b.ts''" exampleContainer, unfolded e] n
  have b: "hasFile ''/p/b.ts'' (snd (getSnapshot exampleDeps ''/p/b.ts'' exampleContainer)) \<and>
   fst (getSnapshot exampleDeps ''/p/b.ts'' exampleContainer) = fromFilePath exampleDeps ''/p/b.ts''"
    by blast
  from getSnapshot_always_returns_stored [of exampleDeps "''/p/App.svelte.ts''" exampleContainer, unfolded v] s
  have a: "getSnapshot exampleDeps ''/p/App.svelte.ts'' exampleContainer
     = (exampleSnapshot ''/p/App.svelte'' 3 JSX, exampleContainer) \<and>
   hasFile ''/p/App.svelte'' (snd (getSnapshot exampleDeps ''/p/App.svelte.ts'' exampleContainer))"
    by blast
  from h a b show ?thesis by blast
qed

section \<open>Properties of the registry\<close>

lemma getServiceForTsconfig_stored:
  "services (snd (getServiceForTsconfig k r)) k = Some (fst (getServiceForTsconfig k r))"
  by (simp add: getServiceForTsconfig_def Let_def split: option.split)

lemma getServiceForTsconfig_keeps:
  "services r k' = Some p \<Longrightarrow> services (snd (getServiceForTsconfig k r)) k' = Some p"
  by (auto simp add: getServiceForTsconfig_def Let_def split: option.split)

lemma call_registry_stored:
  "services (snd (call_registry f q r)) (tsconfigPathOf f q) = Some (fst (call_registry f q r))"
  by (cases q) (simp_all add: getService_def getServiceForTsconfig_stored)

lemma call_registry_keeps:
  "services r k' = Some p \<Longrightarrow> services (snd (call_registry f q r)) k' = Some p"
  by (cases q) (simp_all add: getService_def getServiceForTsconfig_keeps)

lemma call_registry_cached:
  "services r (tsconfigPathOf f q) = Some p \<Longrightarrow> call_registry f q r = (p, r)"
  by (cases q) (simp_all add: getService_def getServiceForTsconfig_def)

lemma call_all_cached:
  "services r k = Some p \<Longrightarrow> i < length qs \<Longrightarrow> tsconfigPathOf f (qs ! i) = k
     \<Longrightarrow> fst (call_all f qs r) ! i = p"
proof (induction qs arbitrary: r i)
  case Nil
  then show ?case by simp
next
  case (Cons q qs)
  show ?case
  proof (cases i)
    case 0
    with Cons.prems have "services r (tsconfigPathOf f q) = Some p" by simp
    then have "call_registry f q r = (p, r)" by (rule call_registry_cached)
    with 0 show ?thesis by (simp add: split_beta)
  next
    case (Suc i')
    from Cons.prems(1) have "services (snd (call_registry f q r)) k = Some p"
      by (rule call_registry_keeps)
    moreover from Cons.prems Suc have "i' < length qs" "tsconfigPathOf f (qs ! i') = k" by simp_all
    ultimately have "fst (call_all f qs (snd (call_registry f q r))) ! i' = p"
      by (rule Cons.IH)
    with Suc show ?thesis by (simp add: split_beta)
  qed
qed

lemma call_all_same_key_ordered:
  "i \<le> j \<Longrightarrow> j < length qs \<Longrightarrow> tsconfigPathOf f (qs ! i) = tsconfigPathOf f (qs ! j)
     \<Longrightarrow> fst (call_all f qs r) ! i = fst (call_all f qs r) ! j"
proof (induction qs arbitrary: r i j)
  case Nil
  then show ?case by simp
next
  case (Cons q qs)
  show ?case
  proof (cases i)
    case 0
    show ?thesis
    proof (cases j)
      case 0
      with \<open>i = 0\<close> show ?thesis by simp
    next
      case (Suc j')
      have "services (snd (call_registry f q r)) (tsconfigPathOf f q)
              = Some (fst (call_registry f q r))"
        by (rule call_registry_stored)
      moreover from Cons.prems Suc \<open>i = 0\<close>
      have "j' < length qs" "tsconfigPathOf f (qs ! j') = tsconfigPathOf f q" by simp_all
      ultimately have "fst (call_all f qs (snd (call_registry f q r))) ! j'
                         = fst (call_registry f q r)"
        by (rule call_all_cached)
      with Suc \<open>i = 0\<close> show ?thesis by (simp add: split_beta)
    qed
  next
    case (Suc i')
    with Cons.prems obtain j' where j: "j = Suc j'" by (cases j) simp_all
    from Cons.prems Suc j have "i' \<le> j'" "j' < length qs"
      "tsconfigPathOf f (qs ! i') = tsconfigPathOf f (qs ! j')" by simp_all
    then have "fst (call_all f qs (snd (call_registry f q r))) ! i'
                 = fst (call_all f qs (snd (call_registry f q r))) ! j'"
      by (rule Cons.IH)
    with Suc j show ?thesis by (simp add: split_beta)
  qed
qed

lemma call_all_same_key:
  assumes "i < length qs" "j < length qs"
    and "tsconfigPathOf f (qs ! i) = tsconfigPathOf f (qs ! j)"
  shows "fst (call_all f qs r) ! i = fst (call_all f qs r) ! j"
proof (cases "i \<le> j")
  case True
  with assms show ?thesis by (simp add: call_all_same_key_ordered)
next
  case False
  then have "j \<le> i" by simp
  from call_all_same_key_ordered [OF this assms(1) assms(3) [symmetric], of r]
  show ?thesis by simp
qed

lemma registry_invariant_initial: "registry_invariant initialRegistry"
  by (simp add: registry_invariant_def initialRegistry_def)

lemma registry_invariant_getServiceForTsconfig:
  assumes "registry_invariant r"
  shows "registry_invariant (snd (getServiceForTsconfig k r))"
proof (cases "services r k")
  case (Some p)
  with assms show ?thesis by (simp add: getServiceForTsconfig_def)
next
  case None
  with assms have fresh: "k \<notin> set (constructions r)"
    by (auto simp add: registry_invariant_def)
  from None have r': "snd (getServiceForTsconfig k r)
      = r\<lparr>constructions := constructions r @ [k],
           services := (services r)(k \<mapsto> length (constructions r))\<rparr>"
    by (simp add: getServiceForTsconfig_def Let_def)
  have "services r (constructions r ! n) = Some n \<and> constructions r ! n \<noteq> k"
    if "n < length (constructions r)" for n
    using that assms fresh by (auto simp add: registry_invariant_def)
  with assms fresh show ?thesis
    unfolding r' by (auto simp add: registry_invariant_def nth_append less_Suc_eq)
qed

lemma registry_invariant_call_registry:
  "registry_invariant r \<Longrightarrow> registry_invariant (snd (call_registry f q r))"
  by (cases q) (simp_all add: getService_def registry_invariant_getServiceForTsconfig)

lemma registry_invariant_call_all:
  "registry_invariant r \<Longrightarrow> registry_invariant (snd (call_all f qs r))"
proof (induction qs arbitrary: r)
  case Nil
  then show ?case by simp
next
  case (Cons q qs)
  from Cons.prems have "registry_invariant (snd (call_registry f q r))"
    by (rule registry_invariant_call_registry)
  then have "registry_invariant (snd (call_all f qs (snd (call_registry f q r))))"
    by (rule Cons.IH)
  then show ?case by (simp add: split_beta)
qed

lemma call_all_keeps:
  "services r k = Some p \<Longrightarrow> services (snd (call_all f qs r)) k = Some p"
proof (induction qs arbitrary: r)
  case Nil
  then show ?case by simp
next
  case (Cons q qs)
  from Cons.prems have "services (snd (call_registry f q r)) k = Some p"
    by (rule call_registry_keeps)
  then have "services (snd (call_all f qs (snd (call_registry f q r)))) k = Some p"
    by (rule Cons.IH)
  then show ?case by (simp add: split_beta)
qed

lemma call_all_result_stored:
  "i < length qs \<Longrightarrow>
     services (snd (call_all f qs r)) (tsconfigPathOf f (qs ! i)) = Some (fst (call_all f qs r) ! i)"
proof (induction qs arbitrary: r i)
  case Nil
  then show ?case by simp
next
  case (Cons q qs)
  show ?case
  proof (cases i)
    case 0
    have "services (snd (call_registry f q r)) (tsconfigPathOf f q) = Some (fst (call_registry f q r))"
      by (rule call_registry_stored)
    then have "services (snd (call_all f qs (snd (call_registry f q r)))) (tsconfigPathOf f q)
                = Some (fst (call_registry f q r))"
      by (rule call_all_keeps)
    with 0 show ?thesis by (simp add: split_beta)
  next
    case (Suc i')
    with Cons.prems have "i' < length qs" by simp
    then have "services (snd (call_all f qs (snd (call_registry f q r)))) (tsconfigPathOf f (qs ! i'))
                 = Some (fst (call_all f qs (snd (call_registry f q r))) ! i')"
      by (rule Cons.IH)
    with Suc show ?thesis by (simp add: split_beta)
  qed
qed

lemma registry_invariant_index:
  assumes "registry_invariant r" and "services r k = Some p"
  shows "p < length (constructions r) \<and> constructions r ! p = k"
proof -
  from assms have "k \<in> set (constructions r)"
    by (auto simp add: registry_invariant_def)
  then obtain n where n: "n < length (constructions r)" "constructions r ! n = k"
    by (auto simp add: in_set_conv_nth)
  with assms have "services r k = Some n" by (auto simp add: registry_invariant_def)
  with assms(2) n show ?thesis by simp
qed

text \<open>
  Claim C1. Callers enter the registry through \<^verbatim>\<open>getService\<close> or
  \<^verbatim>\<open>getServiceForTsconfig\<close>, in any number and any order, each call running to its
  \<^verbatim>\<open>await\<close> before the next starts; whether a promise has settled in between plays no
  part, the registry never asks. Any two callers whose requests resolve to the same
  \<^verbatim>\<open>tsconfigPath\<close> await the same promise, hence receive the same container. From the
  empty registry on, \<^verbatim>\<open>createLanguageService\<close> is called at most once for each
  \<^verbatim>\<open>tsconfigPath\<close>, and what a caller awaits is the promise of the one call made for
  its key.
\<close>

theorem registry_single_flight:
  "(\<forall>i j. i < length qs \<longrightarrow> j < length qs \<longrightarrow>
      tsconfigPathOf f (qs ! i) = tsconfigPathOf f (qs ! j) \<longrightarrow>
      fst (call_all f qs r) ! i = fst (call_all f qs r) ! j) \<and>
   distinct (constructions (snd (call_all f qs initialRegistry))) \<and>
   (\<forall>i. i < length qs \<longrightarrow>
      fst (call_all f qs initialRegistry) ! i < length (constructions (snd (call_all f qs initialRegistry))) \<and>
      constructions (snd (call_all f qs initialRegistry)) ! (fst (call_all f qs initialRegistry) ! i)
        = tsconfigPathOf f (qs ! i))"
proof -
  let ?r = "snd (call_all f qs initialRegistry)"
  have inv: "registry_invariant ?r"
    using registry_invariant_initial by (rule registry_invariant_call_all)
  then have d: "distinct (constructions ?r)" by (simp add: registry_invariant_def)
  have c: "fst (call_all f qs initialRegistry) ! i < length (constructions ?r) \<and>
      constructions ?r ! (fst (call_all f qs initialRegistry) ! i) = tsconfigPathOf f (qs ! i)"
    if "i < length qs" for i
    using inv call_all_result_stored [OF that] by (rule registry_invariant_index)
  from call_all_same_key d c show ?thesis by blast
qed

theorem registry_single_flight_witness:
  "fst (call_all exampleFindTsConfigPath exampleRequests initialRegistry) = [0, 0, 1, 0] \<and>
   constructions (snd (call_all exampleFindTsConfigPath exampleRequests initialRegistry))
     = [''/p/tsconfig.json'', ''/q/tsconfig.json''] \<and>
   fst (call_all exampleFindTsConfigPath exampleRequests initialRegistry) ! 0
     = fst (call_all exampleFindTsConfigPath exampleRequests initialRegistry) ! 3 \<and>
   distinct (constructions (snd (call_all exampleFindTsConfigPath exampleRequests initialRegistry)))"
proof -
  have l: "(0::nat) < length exampleRequests" "3 < length exampleRequests"
    by (simp_all add: exampleRequests_def)
  have k: "tsconfigPathOf exampleFindTsConfigPath (exampleRequests ! 0)
             = tsconfigPathOf exampleFindTsConfigPath (exampleRequests ! 3)"
    by (simp add: exampleRequests_def exampleFindTsConfigPath_def)
  note t = registry_single_flight [of exampleRequests exampleFindTsConfigPath initialRegistry]
  from t l k have same: "fst (call_all exampleFindTsConfigPath exampleRequests initialRegistry) ! 0
     = fst (call_all exampleFindTsConfigPath exampleRequests initialRegistry) ! 3"
    by blast
  from t have d: "distinct (constructions (snd (call_all exampleFindTsConfigPath exampleRequests initialRegistry)))"
    by (rule conjunct2 [THEN conjunct1])
  have v: "call_all exampleFindTsConfigPath exampleRequests initialRegistry
             = ([0, 0, 1, 0],
                \<lparr>services = [''/p/tsconfig.json'' \<mapsto> 0, ''/q/tsconfig.json'' \<mapsto> 1],
                 constructions = [''/p/tsconfig.json'', ''/q/tsconfig.json'']\<rparr>)"
    by (simp add: exampleRequests_def exampleFindTsConfigPath_def initialRegistry_def
        getService_def getServiceForTsconfig_def Let_def)
  from same d v show ?thesis by simp
qed

section \<open>Properties of the configuration\<close>

lemma forcedCompilerOptions_jsxFactory: "forcedCompilerOptions ''jsxFactory'' = None"
  by (simp add: forcedCompilerOptions_def)

lemma getParsedConfig_options:
  assumes "getParsedConfig d tsconfigPath = Inr cfg" and "name \<noteq> ''jsxFactory''"
  shows "options cfg name =
           (options (parseJsonConfigFileContent d (configJson d tsconfigPath)
                       (workspacePath d tsconfigPath) forcedCompilerOptions tsconfigPath)
              ++ forcedCompilerOptions) name"
  using assms
  by (auto simp add: getParsedConfig_def Let_def
      split: sum.splits bool.splits if_splits option.splits)

lemma getParsedConfig_forced_all:
  assumes "getParsedConfig d tsconfigPath = Inr cfg"
    and "forcedCompilerOptions name = Some v"
  shows "options cfg name = Some v"
proof -
  from assms(2) have "name \<noteq> ''jsxFactory''"
    using forcedCompilerOptions_jsxFactory by auto
  with assms(1) have "options cfg name =
           (options (parseJsonConfigFileContent d (configJson d tsconfigPath)
                       (workspacePath d tsconfigPath) forcedCompilerOptions tsconfigPath)
              ++ forcedCompilerOptions) name"
    by (rule getParsedConfig_options)
  with assms(2) show ?thesis by (simp add: map_add_find_right)
qed

lemma getParsedConfig_returns:
  assumes "case options (parseJsonConfigFileContent d (configJson d tsconfigPath)
                   (workspacePath d tsconfigPath) forcedCompilerOptions tsconfigPath) ''jsxFactory'' of
             None \<Rightarrow> True
           | Some v \<Rightarrow> (\<exists>s. v = JStr s) \<or> \<not> truthy v"
  shows "\<exists>cfg. getParsedConfig d tsconfigPath = Inr cfg"
proof -
  let ?opts = "options (parseJsonConfigFileContent d (configJson d tsconfigPath)
                   (workspacePath d tsconfigPath) forcedCompilerOptions tsconfigPath)"
  have j: "(?opts ++ forcedCompilerOptions) ''jsxFactory'' = ?opts ''jsxFactory''"
    by (simp add: map_add_def forcedCompilerOptions_jsxFactory)
  from assms have "\<exists>b. jsxFactoryMissing (?opts ++ forcedCompilerOptions) = Inr b"
    by (auto simp add: jsxFactoryMissing_def truthy_property_def j split: option.splits JsValue.splits)
  then obtain b where "jsxFactoryMissing (?opts ++ forcedCompilerOptions) = Inr b" ..
  then show ?thesis
    by (cases b) (simp_all add: getParsedConfig_def Let_def)
qed

text \<open>
  Claim C5. Whatever the configuration file holds and whatever
  \<^verbatim>\<open>ts.parseJsonConfigFileContent\<close> makes of it (extended configurations included),
  the options \<^verbatim>\<open>getParsedConfig\<close> returns hold every forced option with its forced value:
  \<^verbatim>\<open>allowNonTsExtensions: true\<close>, \<^verbatim>\<open>target: Latest\<close>, \<^verbatim>\<open>module: ESNext\<close>,
  \<^verbatim>\<open>moduleResolution: NodeJs\<close>, \<^verbatim>\<open>allowJs: true\<close>, \<^verbatim>\<open>noEmit: true\<close>,
  \<^verbatim>\<open>declaration: false\<close>, \<^verbatim>\<open>skipLibCheck: true\<close>, \<^verbatim>\<open>jsx: Preserve\<close>. They are
  spread over the parsed options, and the one option set after that is
  \<^verbatim>\<open>jsxFactory\<close>. \<^verbatim>\<open>getParsedConfig\<close> returns whenever the parsed \<^verbatim>\<open>jsxFactory\<close>
  is a string, as \<^verbatim>\<open>ts.CompilerOptions\<close> types it, or is undefined or false.
\<close>

theorem getParsedConfig_forced_options:
  "(\<forall>cfg. getParsedConfig d tsconfigPath = Inr cfg \<longrightarrow>
      options cfg ''allowNonTsExtensions'' = Some (JBool True) \<and>
      options cfg ''target'' = Some ScriptTarget_Latest \<and>
      options cfg ''module'' = Some ModuleKind_ESNext \<and>
      options cfg ''moduleResolution'' = Some ModuleResolutionKind_NodeJs \<and>
      options cfg ''allowJs'' = Some (JBool True) \<and>
      options cfg ''noEmit'' = Some (JBool True) \<and>
      options cfg ''declaration'' = Some (JBool False) \<and>
      options cfg ''skipLibCheck'' = Some (JBool True) \<and>
      options cfg ''jsx'' = Some JsxEmit_Preserve \<and>
      (\<forall>name v. forcedCompilerOptions name = Some v \<longrightarrow> options cfg name = Some v)) \<and>
   ((case options (parseJsonConfigFileContent d (configJson d tsconfigPath)
                   (workspacePath d tsconfigPath) forcedCompilerOptions tsconfigPath) ''jsxFactory'' of
       None \<Rightarrow> True
     | Some v \<Rightarrow> (\<exists>s. v = JStr s) \<or> \<not> truthy v) \<longrightarrow>
    (\<exists>cfg. getParsedConfig d tsconfigPath = Inr cfg))"
proof -
  have forced: "options cfg ''allowNonTsExtensions'' = Some (JBool True) \<and>
      options cfg ''target'' = Some ScriptTarget_Latest \<and>
      options cfg ''module'' = Some ModuleKind_ESNext \<and>
      options cfg ''moduleResolution'' = Some ModuleResolutionKind_NodeJs \<and>
      options cfg ''allowJs'' = Some (JBool True) \<and>
      options cfg ''noEmit'' = Some (JBool True) \<and>
      options cfg ''declaration'' = Some (JBool False) \<and>
      options cfg ''skipLibCheck'' = Some (JBool True) \<and>
      options cfg ''jsx'' = Some JsxEmit_Preserve \<and>
      (\<forall>name v. forcedCompilerOptions name = Some v \<longrightarrow> options cfg name = Some v)"
    if r: "getParsedConfig d tsconfigPath = Inr cfg" for cfg
  proof -
    note f = getParsedConfig_forced_all [OF r]
    have "options cfg ''allowNonTsExtensions'' = Some (JBool True)"
      by (rule f) (simp add: forcedCompilerOptions_def)
    moreover have "options cfg ''target'' = Some ScriptTarget_Latest"
      by (rule f) (simp add: forcedCompilerOptions_def)
    moreover have "options cfg ''module'' = Some ModuleKind_ESNext"
      by (rule f) (simp add: forcedCompilerOptions_def)
    moreover have "options cfg ''moduleResolution'' = Some ModuleResolutionKind_NodeJs"
      by (rule f) (simp add: forcedCompilerOptions_def)
    moreover have "options cfg ''allowJs'' = Some (JBool True)"
      by (rule f) (simp add: forcedCompilerOptions_def)
    moreover have "options cfg ''noEmit'' = Some (JBool True)"
      by (rule f) (simp add: forcedCompilerOptions_def)
    moreover have "options cfg ''declaration'' = Some (JBool False)"
      by (rule f) (simp add: forcedCompilerOptions_def)
    moreover have "options cfg ''skipLibCheck'' = Some (JBool True)"
      by (rule f) (simp add: forcedCompilerOptions_def)
    moreover have "options cfg ''jsx'' = Some JsxEmit_Preserve"
      by (rule f) (simp add: forcedCompilerOptions_def)
    moreover have "\<forall>name v. forcedCompilerOptions name = Some v \<longrightarrow> options cfg name = Some v"
      using f by blast
    ultimately show ?thesis by (intro conjI)
  qed
  from forced getParsedConfig_returns [of d tsconfigPath] show ?thesis by blast
qed

theorem getParsedConfig_forced_options_witness:
  "options (parseJsonConfigFileContent exampleConfigDeps
              (configJson exampleConfigDeps ''/p/tsconfig.json'')
              (workspacePath exampleConfigDeps ''/p/tsconfig.json'')
              forcedCompilerOptions ''/p/tsconfig.json'') ''noEmit'' = Some (JBool False) \<and>
   (\<exists>cfg. getParsedConfig exampleConfigDeps ''/p/tsconfig.json'' = Inr cfg \<and>
      options cfg ''noEmit'' = Some (JBool True) \<and>
      options cfg ''declaration'' = Some (JBool False) \<and>
      options cfg ''target'' = Some ScriptTarget_Latest)"
proof -
  have p: "options (parseJsonConfigFileContent exampleConfigDeps
              (configJson exampleConfigDeps ''/p/tsconfig.json'')
              (workspacePath exampleConfigDeps ''/p/tsconfig.json'')
              forcedCompilerOptions ''/p/tsconfig.json'') ''noEmit'' = Some (JBool False)"
    by (simp add: exampleConfigDeps_def)
  have j: "case options (parseJsonConfigFileContent exampleConfigDeps
              (configJson exampleConfigDeps ''/p/tsconfig.json'')
              (workspacePath exampleConfigDeps ''/p/tsconfig.json'')
              forcedCompilerOptions ''/p/tsconfig.json'') ''jsxFactory'' of
             None \<Rightarrow> True
           | Some v \<Rightarrow> (\<exists>s. v = JStr s) \<or> \<not> truthy v"
    by (simp add: exampleConfigDeps_def)
  note t = getParsedConfig_forced_options [of exampleConfigDeps "''/p/tsconfig.json''"]
  from t j obtain cfg where c: "getParsedConfig exampleConfigDeps ''/p/tsconfig.json'' = Inr cfg"
    by blast
  with t have "options cfg ''noEmit'' = Some (JBool True) \<and>
      options cfg ''declaration'' = Some (JBool False) \<and>
      options cfg ''target'' = Some ScriptTarget_Latest"
    by blast
  with c p show ?thesis by blast
qed

lemma getDefaultJsConfig_properties:
  "getDefaultJsConfig ''include'' = Some (JArr [])"
  "getDefaultJsConfig ''exclude'' = None"
  "getDefaultJsConfig ''extends'' = None"
  by (simp_all add: getDefaultJsConfig_def)

lemma configJson_cases:
  "configJson d tsconfigPath =
     (if truthy_property (configJson_loaded d tsconfigPath) ''extends''
      then configJson_loaded d tsconfigPath
      else [''exclude'' \<mapsto> JArr (map JStr (''node_modules'' # ignoredBuildDirectories d))]
             ++ configJson_loaded d tsconfigPath)"
  by (simp add: configJson_def Let_def getDefaultExclude_def)

text \<open>
  Claim C7, as amended. The default exclude list (\<^verbatim>\<open>node_modules\<close> and the ignored
  build directories) is put under the loaded configuration if and only if its
  \<^verbatim>\<open>extends\<close> property is absent or false in JavaScript's sense (the empty string,
  null, false, 0). Put under it, it does not replace an \<^verbatim>\<open>exclude\<close> the configuration
  has itself, and no other property changes. When there is no configuration file (the
  path is empty, or the library hands back no \<^verbatim>\<open>config\<close>), the configuration is the
  default one, whose
  \<^verbatim>\<open>include\<close> is the empty list, and it gets the default exclude.
\<close>

theorem configJson_default_exclude:
  "configJson d tsconfigPath =
     (if truthy_property (configJson_loaded d tsconfigPath) ''extends''
      then configJson_loaded d tsconfigPath
      else [''exclude'' \<mapsto> JArr (map JStr (''node_modules'' # ignoredBuildDirectories d))]
             ++ configJson_loaded d tsconfigPath) \<and>
   (truthy_property (configJson_loaded d tsconfigPath) ''extends'' \<longleftrightarrow>
      (\<exists>v. configJson_loaded d tsconfigPath ''extends'' = Some v \<and> truthy v)) \<and>
   (\<forall>e. configJson_loaded d tsconfigPath ''exclude'' = Some e \<longrightarrow>
      configJson d tsconfigPath ''exclude'' = Some e) \<and>
   (configJson_loaded d tsconfigPath ''exclude'' = None \<longrightarrow>
      configJson d tsconfigPath ''exclude'' =
        (if truthy_property (configJson_loaded d tsconfigPath) ''extends'' then None
         else Some (JArr (map JStr (''node_modules'' # ignoredBuildDirectories d))))) \<and>
   (\<forall>name. name \<noteq> ''exclude'' \<longrightarrow>
      configJson d tsconfigPath name = configJson_loaded d tsconfigPath name) \<and>
   (tsconfigPath = '''' \<or> readConfigFile d tsconfigPath = None \<longrightarrow>
      configJson_loaded d tsconfigPath = getDefaultJsConfig \<and>
      configJson d tsconfigPath ''include'' = Some (JArr []) \<and>
      configJson d tsconfigPath ''exclude''
        = Some (JArr (map JStr (''node_modules'' # ignoredBuildDirectories d))))"
proof -
  let ?loaded = "configJson_loaded d tsconfigPath"
  let ?default = "JArr (map JStr (''node_modules'' # ignoredBuildDirectories d))"
  note c = configJson_cases [of d tsconfigPath]
  have t: "truthy_property ?loaded ''extends'' \<longleftrightarrow>
      (\<exists>v. ?loaded ''extends'' = Some v \<and> truthy v)"
    by (simp add: truthy_property_def split: option.split)
  have own: "configJson d tsconfigPath ''exclude'' = Some e" if "?loaded ''exclude'' = Some e" for e
    using that by (simp add: c map_add_Some_iff)
  have none: "configJson d tsconfigPath ''exclude'' =
        (if truthy_property ?loaded ''extends'' then None else Some ?default)"
    if "?loaded ''exclude'' = None"
    using that by (simp add: c map_add_def)
  have others: "configJson d tsconfigPath name = ?loaded name" if "name \<noteq> ''exclude''" for name
    using that by (simp add: c map_add_def split: option.split)
  have nofile: "?loaded = getDefaultJsConfig \<and>
      configJson d tsconfigPath ''include'' = Some (JArr []) \<and>
      configJson d tsconfigPath ''exclude'' = Some ?default"
    if "tsconfigPath = '''' \<or> readConfigFile d tsconfigPath = None"
  proof -
    from that have l: "?loaded = getDefaultJsConfig"
      by (auto simp add: configJson_loaded_def)
    then have "\<not> truthy_property ?loaded ''extends''"
      by (simp add: truthy_property_def getDefaultJsConfig_properties)
    with l show ?thesis
      by (simp add: c map_add_def getDefaultJsConfig_properties)
  qed
  from c t own none others nofile show ?thesis by blast
qed

theorem configJson_default_exclude_witness:
  "configJson exampleConfigDeps ''/p/tsconfig.json'' ''exclude'' = Some (JArr [JStr ''dist'']) \<and>
   configJson exampleConfigDeps ''/r/tsconfig.json'' ''exclude'' = None \<and>
   configJson exampleConfigDeps '''' ''include'' = Some (JArr []) \<and>
   configJson exampleConfigDeps '''' ''exclude''
     = Some (JArr [JStr ''node_modules'', JStr ''__sapper__'', JStr ''.svelte-kit'']) \<and>
   configJson exampleConfigDeps ''/p/tsconfig.json'' ''compilerOptions''
     = configJson_loaded exampleConfigDeps ''/p/tsconfig.json'' ''compilerOptions''"
proof -
  have p: "configJson_loaded exampleConfigDeps ''/p/tsconfig.json'' ''exclude'' = Some (JArr [JStr ''dist''])"
    and r: "configJson_loaded exampleConfigDeps ''/r/tsconfig.json'' ''exclude'' = None"
    and x: "truthy_property (configJson_loaded exampleConfigDeps ''/r/tsconfig.json'') ''extends''"
    and i: "map JStr (''node_modules'' # ignoredBuildDirectories exampleConfigDeps)
              = [JStr ''node_modules'', JStr ''__sapper__'', JStr ''.svelte-kit'']"
    and n: "''compilerOptions'' \<noteq> ''exclude''"
    by (simp_all add: configJson_loaded_def exampleConfigDeps_def truthy_property_def)
  note tp = configJson_default_exclude [of exampleConfigDeps "''/p/tsconfig.json''"]
  note tr = configJson_default_exclude [of exampleConfigDeps "''/r/tsconfig.json''"]
  note te = configJson_default_exclude [of exampleConfigDeps "''''", unfolded i]
  from tp p have a: "configJson exampleConfigDeps ''/p/tsconfig.json'' ''exclude'' = Some (JArr [JStr ''dist''])"
    by blast
  from tr r x have b: "configJson exampleConfigDeps ''/r/tsconfig.json'' ''exclude'' = None"
    by simp
  from te have c: "configJson exampleConfigDeps '''' ''include'' = Some (JArr []) \<and>
     configJson exampleConfigDeps '''' ''exclude''
       = Some (JArr [JStr ''node_modules'', JStr ''__sapper__'', JStr ''.svelte-kit''])"
    by blast
  from tp have "\<forall>name. name \<noteq> ''exclude'' \<longrightarrow>
      configJson exampleConfigDeps ''/p/tsconfig.json'' name
        = configJson_loaded exampleConfigDeps ''/p/tsconfig.json'' name"
    by (rule conjunct2 [THEN conjunct2, THEN conjunct2, THEN conjunct2, THEN conjunct1])
  then have "''compilerOptions'' \<noteq> ''exclude'' \<longrightarrow>
      configJson exampleConfigDeps ''/p/tsconfig.json'' ''compilerOptions''
        = configJson_loaded exampleConfigDeps ''/p/tsconfig.json'' ''compilerOptions''"
    by (rule spec)
  from this n have e: "configJson exampleConfigDeps ''/p/tsconfig.json'' ''compilerOptions''
     = configJson_loaded exampleConfigDeps ''/p/tsconfig.json'' ''compilerOptions''"
    by (rule mp)
  from a b c e show ?thesis by blast
qed

text \<open>
  Claim C7 as it is stated fails: a configuration file that holds \<^verbatim>\<open>"extends": ""\<close> has
  an \<^verbatim>\<open>extends\<close> clause, and the default exclude list is put under it all the same,
  since \<^verbatim>\<open>!configJson.extends\<close> is true of the empty string.
\<close>

theorem configJson_default_exclude_counterexample:
  "readConfigFile exampleConfigDeps ''/q/tsconfig.json'' = Some [''extends'' \<mapsto> JStr ''''] \<and>
   configJson_loaded exampleConfigDeps ''/q/tsconfig.json'' ''extends'' = Some (JStr '''') \<and>
   configJson exampleConfigDeps ''/q/tsconfig.json'' ''exclude''
     = Some (JArr [JStr ''node_modules'', JStr ''__sapper__'', JStr ''.svelte-kit''])"
  by (simp add: configJson_def configJson_loaded_def Let_def getDefaultExclude_def
      truthy_property_def exampleConfigDeps_def)

section \<open>What hasServiceForFile answers\<close>

text \<open>
  \<^verbatim>\<open>hasServiceForFile\<close> resolves the path with \<^verbatim>\<open>findTsConfigPath\<close> and looks the
  result up in \<^verbatim>\<open>services\<close>; it changes nothing and starts no construction. After any
  calls of \<^verbatim>\<open>getService\<close> and \<^verbatim>\<open>getServiceForTsconfig\<close> on the empty registry, it
  is true exactly of the paths whose \<^verbatim>\<open>tsconfigPath\<close> one of the calls resolved to.
\<close>

lemma hasServiceForFile_lookup:
  "hasServiceForFile f path workspaceUris r \<longleftrightarrow> f path workspaceUris \<in> dom (services r)"
  by (auto simp add: hasServiceForFile_def Let_def)

lemma dom_services_call_registry:
  "dom (services (snd (call_registry f q r))) = insert (tsconfigPathOf f q) (dom (services r))"
  by (cases q)
    (auto simp add: getService_def getServiceForTsconfig_def Let_def split: option.splits)

lemma dom_services_call_all:
  "dom (services (snd (call_all f qs r))) = dom (services r) \<union> tsconfigPathOf f ` set qs"
proof (induction qs arbitrary: r)
  case Nil
  show ?case by simp
next
  case (Cons q qs)
  have "dom (services (snd (call_all f qs (snd (call_registry f q r)))))
          = dom (services (snd (call_registry f q r))) \<union> tsconfigPathOf f ` set qs"
    by (rule Cons.IH)
  then show ?case by (simp add: split_beta dom_services_call_registry)
qed

lemma hasServiceForFile_after_calls:
  "hasServiceForFile f path workspaceUris (snd (call_all f qs initialRegistry))
     \<longleftrightarrow> f path workspaceUris \<in> tsconfigPathOf f ` set qs"
  by (simp add: hasServiceForFile_lookup dom_services_call_all initialRegistry_def)

end
